theory Spec2Isabelle
  imports Main "HOL-Library.Char_ord" "HOL-Library.List_Lexorder" "HOL-Library.Product_Lexorder"
begin

section \<open>Data model\<close>

text \<open>
  The file \<^verbatim>\<open>polars_api_compat/cudf/dataframe_object.py\<close> wraps a frame of the columnar
  engine (\<^verbatim>\<open>cudf\<close>, imported as \<^verbatim>\<open>pd\<close>) in two classes, \<^verbatim>\<open>DataFrame\<close> and
  \<^verbatim>\<open>LazyFrame\<close>. An engine frame is an ordered list of named columns; a cell holds a
  boolean, an integer or a string. Rows are identified with their positions.
\<close>

datatype val = B bool | I int | S string

type_synonym frame = "(string \<times> val list) list"

text \<open>A \<^verbatim>\<open>Series\<close> wrapper: \<^verbatim>\<open>series.name\<close> and the engine column \<^verbatim>\<open>series.series\<close>.\<close>

datatype Series = Series (name: string) (series: "val list")

text \<open>
  The messages of the exceptions raised in the file, each with the values its f-string
  interpolates, and one constructor for the messages of collaborators.
  \<^item> \<^verbatim>\<open>Expected unique column names, got {col} {count} time(s)\<close>
  \<^item> \<^verbatim>\<open>'any' can only be called on DataFrame where all dtypes are 'bool'\<close>
  \<^item> \<^verbatim>\<open>Only inner join supported for now, others coming soon\<close>
  \<^item> \<^verbatim>\<open>Found overlapping columns in join: {overlap}. Please rename columns to avoid this.\<close>
\<close>

datatype message =
    Expected_unique_column_names string nat
  | Any_only_on_bool_dtypes
  | Only_inner_join_supported
  | Found_overlapping_columns "string set"
  | Other_message string

datatype error = ValueError message | TypeError message | IndexError | KeyError string

text \<open>
  The spec names the errors by kind; in the source each kind is a \<^verbatim>\<open>ValueError\<close> with its
  own message.
\<close>

abbreviation DuplicateName :: "string \<Rightarrow> nat \<Rightarrow> error" where
  "DuplicateName col count \<equiv> ValueError (Expected_unique_column_names col count)"

abbreviation NotSupported :: error where
  "NotSupported \<equiv> ValueError Only_inner_join_supported"

abbreviation NameCollision :: "string set \<Rightarrow> error" where
  "NameCollision overlap \<equiv> ValueError (Found_overlapping_columns overlap)"

datatype DataFrame =
  DataFrame (dataframe: frame) (api_version: string) (columns: "string list")

datatype LazyFrame =
  LazyFrame (dataframe: frame) (api_version: string) (columns: "string list")

text \<open>An argument that is either one string or a list of strings (\<^verbatim>\<open>str | list[str]\<close>).\<close>

datatype str_or_list = Str string | Lst "string list"

text \<open>\<^verbatim>\<open>descending: bool | Iterable[bool]\<close>, and the \<^verbatim>\<open>ascending\<close> handed to the engine.\<close>

datatype flags = Flag bool | Flags "bool list"

section \<open>Python dictionaries and counters\<close>

text \<open>
  A \<^verbatim>\<open>dict\<close> keeps its keys in insertion order; storing under a key that is present
  replaces the value and leaves the key where it is.
\<close>

fun dict_setitem :: "'k \<Rightarrow> 'v \<Rightarrow> ('k \<times> 'v) list \<Rightarrow> ('k \<times> 'v) list" where
  "dict_setitem k v [] = [(k, v)]"
| "dict_setitem k v ((k', v') # d) =
     (if k' = k then (k', v) # d else (k', v') # dict_setitem k v d)"

text \<open>\<^verbatim>\<open>collections.Counter(columns)\<close>: one pass, each element adds one to its count.\<close>

definition counter_add :: "'k \<Rightarrow> ('k \<times> nat) list \<Rightarrow> ('k \<times> nat) list" where
  "counter_add k c =
     (case map_of c k of None \<Rightarrow> dict_setitem k 1 c | Some n \<Rightarrow> dict_setitem k (n + 1) c)"

definition Counter :: "'k list \<Rightarrow> ('k \<times> nat) list" where
  "Counter xs = foldl (\<lambda>c k. counter_add k c) [] xs"

section \<open>Construction\<close>

text \<open>
  \<^verbatim>\<open>_validate_columns\<close> (the same body in both classes): the first item of the counter
  with a count above one raises.
\<close>

definition validate_columns :: "string list \<Rightarrow> error + unit" where
  "validate_columns cols =
     (case find (\<lambda>(col, count). count > 1) (Counter cols) of
        None \<Rightarrow> Inr ()
      | Some (col, count) \<Rightarrow> Inl (DuplicateName col count))"

text \<open>\<^verbatim>\<open>dataframe.columns\<close> of the engine: the column labels, in order.\<close>

definition frame_columns :: "frame \<Rightarrow> string list" where
  "frame_columns d = map fst d"

definition DataFrame_init :: "frame \<Rightarrow> string \<Rightarrow> error + DataFrame" where
  "DataFrame_init d v =
     (case validate_columns (frame_columns d) of
        Inl e \<Rightarrow> Inl e
      | Inr _ \<Rightarrow> Inr (DataFrame d v (frame_columns d)))"

definition LazyFrame_init :: "frame \<Rightarrow> string \<Rightarrow> error + LazyFrame" where
  "LazyFrame_init d v =
     (case validate_columns (frame_columns d) of
        Inl e \<Rightarrow> Inl e
      | Inr _ \<Rightarrow> Inr (LazyFrame d v (frame_columns d)))"

definition DataFrame_from_dataframe :: "DataFrame \<Rightarrow> frame \<Rightarrow> error + DataFrame" where
  "DataFrame_from_dataframe self d = DataFrame_init d (DataFrame.api_version self)"

definition LazyFrame_from_dataframe :: "LazyFrame \<Rightarrow> frame \<Rightarrow> error + LazyFrame" where
  "LazyFrame_from_dataframe self d = LazyFrame_init d (LazyFrame.api_version self)"

section \<open>The engine\<close>

text \<open>
  Modelled from the spec: the operations of the columnar engine (\<^verbatim>\<open>cudf\<close>) that the file
  calls are not part of the repository. Section 6 of the spec lists them: row selection by
  a boolean mask, row reordering by sort keys with stable tie-break, column concatenation
  and assignment, and the relational merge. Frames are rectangular: every column has
  \<open>nrows\<close> cells.
\<close>

definition nrows :: "frame \<Rightarrow> nat" where
  "nrows d = (case d of [] \<Rightarrow> 0 | (_, vs) # _ \<Rightarrow> length vs)"

text \<open>The rows at the positions \<open>idx\<close>, in that order.\<close>

definition take_rows :: "frame \<Rightarrow> nat list \<Rightarrow> frame" where
  "take_rows d idx = map (\<lambda>(n, vs). (n, map (\<lambda>i. vs ! i) idx)) d"

text \<open>The cells of row \<open>i\<close>, one per column.\<close>

definition row :: "frame \<Rightarrow> nat \<Rightarrow> val list" where
  "row d i = map (\<lambda>(n, vs). vs ! i) d"

text \<open>
  \<^verbatim>\<open>pd.concat(objs, axis=1)\<close> over a dictionary of columns: its items become the columns,
  in the dictionary's order; nothing to concatenate is an error.
\<close>

definition pd_concat :: "(string \<times> val list) list \<Rightarrow> error + frame" where
  "pd_concat objs =
     (if objs = [] then Inl (ValueError (Other_message ''No objects to concatenate''))
      else Inr objs)"

text \<open>
  \<^verbatim>\<open>df.assign(**kwargs)\<close>: each keyword in turn is stored as a column, over the column of
  that name when there is one and as a new last column otherwise.
\<close>

definition assign :: "frame \<Rightarrow> (string \<times> val list) list \<Rightarrow> frame" where
  "assign d kwargs = foldl (\<lambda>d' (k, v). dict_setitem k v d') d kwargs"

text \<open>
  \<^verbatim>\<open>df.loc[mask]\<close>. A boolean mask selects the rows at which it is true, in their order.
  Any other indexer is a lookup of rows by label, which the spec does not describe: it
  is the parameter \<open>label_loc\<close>.
\<close>

definition is_bool :: "val \<Rightarrow> bool" where
  "is_bool x = (case x of B _ \<Rightarrow> True | _ \<Rightarrow> False)"

definition mask_positions :: "val list \<Rightarrow> nat list" where
  "mask_positions m = filter (\<lambda>i. m ! i = B True) [0..<length m]"

definition loc :: "(frame \<Rightarrow> val list \<Rightarrow> error + frame) \<Rightarrow> frame \<Rightarrow> val list \<Rightarrow> error + frame"
  where
  "loc label_loc d m =
     (if list_all is_bool m then Inr (take_rows d (mask_positions m)) else label_loc d m)"

text \<open>
  One such lookup, used where a concrete engine is needed: that of the library on a frame
  with the default index, whose labels are the positions \<open>0, \<dots>, nrows - 1\<close>. Integer
  labels give the rows they name, in the order of the indexer, and a label that names no
  row is a \<^verbatim>\<open>KeyError\<close>. It is taken from the library's documented behaviour, not from
  the spec.
\<close>

definition label_of :: "frame \<Rightarrow> val \<Rightarrow> nat option" where
  "label_of d x =
     (case x of I i \<Rightarrow> (if 0 \<le> i \<and> i < int (nrows d) then Some (nat i) else None)
              | _ \<Rightarrow> None)"

definition range_index_loc :: "frame \<Rightarrow> val list \<Rightarrow> error + frame" where
  "range_index_loc d m =
     (if list_all (\<lambda>x. label_of d x \<noteq> None) m
      then Inr (take_rows d (map (\<lambda>x. the (label_of d x)) m))
      else Inl (KeyError ''label not found''))"

text \<open>
  The order of cells within a column: booleans, integers and strings each in their usual
  order. A column holds values of one type; across types the order is by type.
\<close>

fun val_rank :: "val \<Rightarrow> nat \<times> int \<times> string" where
  "val_rank (B b) = (0, of_bool b, [])"
| "val_rank (I i) = (1, i, [])"
| "val_rank (S s) = (2, 0, s)"

definition val_less :: "val \<Rightarrow> val \<Rightarrow> bool" where
  "val_less x y = (val_rank x < val_rank y)"

definition column :: "frame \<Rightarrow> string \<Rightarrow> val list" where
  "column d k = (case map_of d k of None \<Rightarrow> [] | Some vs \<Rightarrow> vs)"

text \<open>
  Row \<open>i\<close> comes no later than row \<open>j\<close> under the sort keys, each with its direction
  (\<open>True\<close> is ascending): the first key on which the rows differ decides.
\<close>

fun row_le :: "frame \<Rightarrow> (string \<times> bool) list \<Rightarrow> nat \<Rightarrow> nat \<Rightarrow> bool" where
  "row_le d [] i j = True"
| "row_le d ((k, asc) # ks) i j =
     (if column d k ! i = column d k ! j then row_le d ks i j
      else if asc then val_less (column d k ! i) (column d k ! j)
      else val_less (column d k ! j) (column d k ! i))"

text \<open>Rows \<open>i\<close> and \<open>j\<close> are equal on every sort key.\<close>

definition tied :: "frame \<Rightarrow> string list \<Rightarrow> nat \<Rightarrow> nat \<Rightarrow> bool" where
  "tied d ks i j = list_all (\<lambda>k. column d k ! i = column d k ! j) ks"

text \<open>A stable sort: each element is inserted before the first one it does not exceed.\<close>

fun insort_by :: "('a \<Rightarrow> 'a \<Rightarrow> bool) \<Rightarrow> 'a \<Rightarrow> 'a list \<Rightarrow> 'a list" where
  "insort_by le x [] = [x]"
| "insort_by le x (y # ys) = (if le x y then x # y # ys else y # insort_by le x ys)"

definition stable_sort_by :: "('a \<Rightarrow> 'a \<Rightarrow> bool) \<Rightarrow> 'a list \<Rightarrow> 'a list" where
  "stable_sort_by le xs = foldr (insort_by le) xs []"

definition argsort :: "frame \<Rightarrow> (string \<times> bool) list \<Rightarrow> nat list" where
  "argsort d ks = stable_sort_by (row_le d ks) [0..<nrows d]"

text \<open>
  \<^verbatim>\<open>df.sort_values(by, ascending=ascending)\<close>: a key that is no column is a \<^verbatim>\<open>KeyError\<close>;
  one flag is the direction of every key; a list of flags gives each key its own and must
  be as long as the keys.
\<close>

definition sort_values :: "frame \<Rightarrow> string list \<Rightarrow> flags \<Rightarrow> error + frame" where
  "sort_values d keys ascending =
     (case find (\<lambda>k. k \<notin> set (frame_columns d)) keys of
        Some k \<Rightarrow> Inl (KeyError k)
      | None \<Rightarrow>
          (case ascending of
             Flag a \<Rightarrow> Inr (take_rows d (argsort d (map (\<lambda>k. (k, a)) keys)))
           | Flags as \<Rightarrow>
               (if length as \<noteq> length keys
                then Inl (ValueError (Other_message ''Length of ascending must match by''))
                else Inr (take_rows d (argsort d (zip keys as))))))"

section \<open>Helpers of the package\<close>

text \<open>
  Modelled from the spec: \<^verbatim>\<open>polars_api_compat.utils.flatten_str\<close> is not in the sources.
  Section 6: it accepts a mix of bare strings and iterables of strings and returns one
  flat ordered sequence of strings, duplicates preserved as given.
\<close>

definition flatten_str :: "str_or_list list \<Rightarrow> string list" where
  "flatten_str keys = concat (map (\<lambda>k. case k of Str s \<Rightarrow> [s] | Lst l \<Rightarrow> l) keys)"

text \<open>
  Modelled from the spec: \<^verbatim>\<open>polars_api_compat.utils.validate_dataframe_comparand\<close> is not
  in the sources. Section 6: given a target frame and a candidate mask, it asserts
  positional alignment (compatible length) and returns the validated mask or fails.
\<close>

definition validate_dataframe_comparand :: "LazyFrame \<Rightarrow> Series \<Rightarrow> error + val list" where
  "validate_dataframe_comparand self mask' =
     (if length (series mask') = nrows (LazyFrame.dataframe self) then Inr (series mask')
      else Inl (ValueError (Other_message ''incompatible lengths'')))"

text \<open>
  The classes \<^verbatim>\<open>Namespace\<close>, \<^verbatim>\<open>GroupBy\<close> and \<^verbatim>\<open>LazyGroupBy\<close> live in a backend package
  of \<^verbatim>\<open>polars_api_compat\<close>; an instance is recorded with the package of its class and the
  arguments of its constructor.
\<close>

datatype package = pandas | cudf

datatype Namespace = Namespace (ns_package: package) (ns_api_version: string)

datatype GroupBy =
  GroupBy (gb_package: package) (gb_df: DataFrame) (gb_keys: "string list")
    (gb_api_version: string)

datatype LazyGroupBy =
  LazyGroupBy (lgb_package: package) (lgb_df: LazyFrame) (lgb_keys: "string list")
    (lgb_api_version: string)

section \<open>LazyFrame\<close>

text \<open>Sequencing of calls that may raise: the first error ends the chain.\<close>

definition and_then :: "error + 'a \<Rightarrow> ('a \<Rightarrow> error + 'b) \<Rightarrow> error + 'b" where
  "and_then r f = (case r of Inl e \<Rightarrow> Inl e | Inr x \<Rightarrow> f x)"

text \<open>
  \<^verbatim>\<open>_validate_booleanness\<close> (the same body in both classes): every dtype of the frame
  itself is \<^verbatim>\<open>bool\<close> or \<^verbatim>\<open>boolean\<close>. The dtypes are the engine's: the parameter
  \<open>dtypes\<close> gives the dtype of each column of a frame. No method of the file calls it.
\<close>

definition LazyFrame_validate_booleanness ::
  "(frame \<Rightarrow> string list) \<Rightarrow> LazyFrame \<Rightarrow> error + unit" where
  "LazyFrame_validate_booleanness dtypes self =
     (if list_all (\<lambda>t. t = ''bool'' \<or> t = ''boolean'') (dtypes (LazyFrame.dataframe self))
      then Inr ()
      else Inl (TypeError Any_only_on_bool_dtypes))"

definition LazyFrame_lazyframe_namespace :: "LazyFrame \<Rightarrow> Namespace" where
  "LazyFrame_lazyframe_namespace self = Namespace pandas (LazyFrame.api_version self)"

definition LazyFrame_group_by :: "LazyFrame \<Rightarrow> str_or_list list \<Rightarrow> LazyGroupBy" where
  "LazyFrame_group_by self keys =
     LazyGroupBy pandas self (flatten_str keys) (LazyFrame.api_version self)"

text \<open>
  The dictionary comprehension \<^verbatim>\<open>{series.name: series.series for series in new_series}\<close>.
\<close>

definition series_dict :: "Series list \<Rightarrow> (string \<times> val list) list" where
  "series_dict new_series = foldl (\<lambda>d s. dict_setitem (name s) (series s) d) [] new_series"

text \<open>
  \<^verbatim>\<open>evaluate_into_exprs(self, *exprs, **named_exprs)\<close> is a helper outside the sources: the
  parameter \<open>evaluate_into_exprs\<close> gives the list of Series it returns, or the error it
  raises, for the frame and the expressions \<open>exprs\<close>.
\<close>

definition LazyFrame_select ::
  "(LazyFrame \<Rightarrow> 'e \<Rightarrow> error + Series list) \<Rightarrow> LazyFrame \<Rightarrow> 'e \<Rightarrow> error + LazyFrame" where
  "LazyFrame_select evaluate_into_exprs self exprs =
     (case evaluate_into_exprs self exprs of
        Inl e \<Rightarrow> Inl e
      | Inr new_series \<Rightarrow>
          (case pd_concat (series_dict new_series) of
             Inl e \<Rightarrow> Inl e
           | Inr d \<Rightarrow> LazyFrame_from_dataframe self d))"

text \<open>
  \<^verbatim>\<open>filter\<close>. The parameter \<open>all_horizontal\<close> stands for
  \<^verbatim>\<open>plx.all_horizontal(*predicates).call(self)\<close>; \<^verbatim>\<open>[0]\<close> takes the first Series.
\<close>

definition LazyFrame_filter ::
  "(Namespace \<Rightarrow> 'p \<Rightarrow> LazyFrame \<Rightarrow> error + Series list) \<Rightarrow>
   (frame \<Rightarrow> val list \<Rightarrow> error + frame) \<Rightarrow> LazyFrame \<Rightarrow> 'p \<Rightarrow> error + LazyFrame" where
  "LazyFrame_filter all_horizontal label_loc self predicates =
     (let plx = LazyFrame_lazyframe_namespace self in
      case all_horizontal plx predicates self of
        Inl e \<Rightarrow> Inl e
      | Inr [] \<Rightarrow> Inl IndexError
      | Inr (mask' # _) \<Rightarrow>
          (case validate_dataframe_comparand self mask' of
             Inl e \<Rightarrow> Inl e
           | Inr m \<Rightarrow>
               (case loc label_loc (LazyFrame.dataframe self) m of
                  Inl e \<Rightarrow> Inl e
                | Inr d \<Rightarrow> LazyFrame_from_dataframe self d)))"

definition LazyFrame_with_columns ::
  "(LazyFrame \<Rightarrow> 'e \<Rightarrow> error + Series list) \<Rightarrow> LazyFrame \<Rightarrow> 'e \<Rightarrow> error + LazyFrame" where
  "LazyFrame_with_columns evaluate_into_exprs self exprs =
     (case evaluate_into_exprs self exprs of
        Inl e \<Rightarrow> Inl e
      | Inr new_series \<Rightarrow>
          LazyFrame_from_dataframe self
            (assign (LazyFrame.dataframe self) (series_dict new_series)))"

definition LazyFrame_sort :: "LazyFrame \<Rightarrow> str_or_list list \<Rightarrow> flags \<Rightarrow> error + LazyFrame" where
  "LazyFrame_sort self keys descending =
     (let flat_keys = flatten_str keys;
          flat_keys = (if flat_keys = [] then frame_columns (LazyFrame.dataframe self)
                       else flat_keys);
          ascending = (case descending of
                         Flag b \<Rightarrow> Flag (\<not> b)
                       | Flags ds \<Rightarrow> Flags (map (\<lambda>d. \<not> d) ds))
      in case sort_values (LazyFrame.dataframe self) flat_keys ascending of
           Inl e \<Rightarrow> Inl e
         | Inr d \<Rightarrow> LazyFrame_from_dataframe self d)"

text \<open>
  \<^verbatim>\<open>join\<close>. The merge of the engine is the parameter \<open>merge\<close>: an action on the state
  \<open>'s\<close> of the engine, which returns a frame or raises. The state is handed through, so
  that a call which returns it untouched has not run the merge.
\<close>

definition normalize_on :: "str_or_list \<Rightarrow> string list" where
  "normalize_on on = (case on of Str s \<Rightarrow> [s] | Lst l \<Rightarrow> l)"

definition join_overlap :: "LazyFrame \<Rightarrow> LazyFrame \<Rightarrow> string list \<Rightarrow> string list \<Rightarrow> string set"
  where
  "join_overlap self other left_on right_on =
     (set (LazyFrame.columns self) - set left_on) \<inter>
     (set (LazyFrame.columns other) - set right_on)"

definition LazyFrame_join ::
  "(frame \<Rightarrow> frame \<Rightarrow> string list \<Rightarrow> string list \<Rightarrow> string \<Rightarrow> 's \<Rightarrow> (error + frame) \<times> 's) \<Rightarrow>
   LazyFrame \<Rightarrow> LazyFrame \<Rightarrow> string \<Rightarrow> str_or_list \<Rightarrow> str_or_list \<Rightarrow> 's \<Rightarrow>
   (error + LazyFrame) \<times> 's" where
  "LazyFrame_join merge self other how left_on right_on s =
     (if how \<notin> set [''inner''] then (Inl NotSupported, s)
      else
        let left_on = normalize_on left_on;
            right_on = normalize_on right_on;
            overlap = join_overlap self other left_on right_on
        in if overlap \<noteq> {} then (Inl (NameCollision overlap), s)
           else
             (case merge (LazyFrame.dataframe self) (LazyFrame.dataframe other)
                     left_on right_on how s of
                (Inl e, s') \<Rightarrow> (Inl e, s')
              | (Inr d, s') \<Rightarrow> (LazyFrame_from_dataframe self d, s')))"

definition LazyFrame_collect :: "LazyFrame \<Rightarrow> error + DataFrame" where
  "LazyFrame_collect self =
     DataFrame_init (LazyFrame.dataframe self) (LazyFrame.api_version self)"

section \<open>DataFrame\<close>

definition DataFrame_dataframe_namespace :: "DataFrame \<Rightarrow> Namespace" where
  "DataFrame_dataframe_namespace self = Namespace pandas (DataFrame.api_version self)"

definition DataFrame_group_by :: "DataFrame \<Rightarrow> str_or_list list \<Rightarrow> GroupBy" where
  "DataFrame_group_by self keys =
     GroupBy pandas self (flatten_str keys) (DataFrame.api_version self)"

definition DataFrame_lazy :: "DataFrame \<Rightarrow> error + LazyFrame" where
  "DataFrame_lazy self = LazyFrame_init (DataFrame.dataframe self) (DataFrame.api_version self)"

definition DataFrame_select ::
  "(LazyFrame \<Rightarrow> 'e \<Rightarrow> error + Series list) \<Rightarrow> DataFrame \<Rightarrow> 'e \<Rightarrow> error + DataFrame" where
  "DataFrame_select evaluate_into_exprs self exprs =
     (case DataFrame_lazy self of
        Inl e \<Rightarrow> Inl e
      | Inr l \<Rightarrow>
          (case LazyFrame_select evaluate_into_exprs l exprs of
             Inl e \<Rightarrow> Inl e
           | Inr r \<Rightarrow> LazyFrame_collect r))"

definition DataFrame_filter ::
  "(Namespace \<Rightarrow> 'p \<Rightarrow> LazyFrame \<Rightarrow> error + Series list) \<Rightarrow>
   (frame \<Rightarrow> val list \<Rightarrow> error + frame) \<Rightarrow> DataFrame \<Rightarrow> 'p \<Rightarrow> error + DataFrame" where
  "DataFrame_filter all_horizontal label_loc self predicates =
     (case DataFrame_lazy self of
        Inl e \<Rightarrow> Inl e
      | Inr l \<Rightarrow>
          (case LazyFrame_filter all_horizontal label_loc l predicates of
             Inl e \<Rightarrow> Inl e
           | Inr r \<Rightarrow> LazyFrame_collect r))"

definition DataFrame_with_columns ::
  "(LazyFrame \<Rightarrow> 'e \<Rightarrow> error + Series list) \<Rightarrow> DataFrame \<Rightarrow> 'e \<Rightarrow> error + DataFrame" where
  "DataFrame_with_columns evaluate_into_exprs self exprs =
     (case DataFrame_lazy self of
        Inl e \<Rightarrow> Inl e
      | Inr l \<Rightarrow>
          (case LazyFrame_with_columns evaluate_into_exprs l exprs of
             Inl e \<Rightarrow> Inl e
           | Inr r \<Rightarrow> LazyFrame_collect r))"

definition DataFrame_sort :: "DataFrame \<Rightarrow> str_or_list list \<Rightarrow> flags \<Rightarrow> error + DataFrame" where
  "DataFrame_sort self keys descending =
     (case DataFrame_lazy self of
        Inl e \<Rightarrow> Inl e
      | Inr l \<Rightarrow>
          (case LazyFrame_sort l keys descending of
             Inl e \<Rightarrow> Inl e
           | Inr r \<Rightarrow> LazyFrame_collect r))"

definition DataFrame_join ::
  "(frame \<Rightarrow> frame \<Rightarrow> string list \<Rightarrow> string list \<Rightarrow> string \<Rightarrow> 's \<Rightarrow> (error + frame) \<times> 's) \<Rightarrow>
   DataFrame \<Rightarrow> DataFrame \<Rightarrow> string \<Rightarrow> str_or_list \<Rightarrow> str_or_list \<Rightarrow> 's \<Rightarrow>
   (error + DataFrame) \<times> 's" where
  "DataFrame_join merge self other how left_on right_on s =
     (case DataFrame_lazy self of
        Inl e \<Rightarrow> (Inl e, s)
      | Inr l \<Rightarrow>
          (case DataFrame_lazy other of
             Inl e \<Rightarrow> (Inl e, s)
           | Inr lo \<Rightarrow>
               (case LazyFrame_join merge l lo how left_on right_on s of
                  (Inl e, s') \<Rightarrow> (Inl e, s')
                | (Inr r, s') \<Rightarrow> (LazyFrame_collect r, s'))))"

text \<open>
  The DataFrame with the fields of a LazyFrame: what the spec calls the materialized view
  of the lazy result.
\<close>

definition eager :: "LazyFrame \<Rightarrow> DataFrame" where
  "eager l = DataFrame (LazyFrame.dataframe l) (LazyFrame.api_version l) (LazyFrame.columns l)"

section \<open>Dictionaries: basic facts\<close>

lemma map_of_dict_setitem: "map_of (dict_setitem k v d) = (map_of d)(k \<mapsto> v)"
  by (induction d) (auto simp: fun_eq_iff)

lemma keys_dict_setitem:
  "map fst (dict_setitem k v d) = (if k \<in> set (map fst d) then map fst d else map fst d @ [k])"
  by (induction d) force+

lemma distinct_dict_setitem:
  "distinct (map fst d) \<Longrightarrow> distinct (map fst (dict_setitem k v d))"
  by (simp add: keys_dict_setitem)

lemma map_of_counter_add:
  "map_of (counter_add k c) =
     (map_of c)(k \<mapsto> (case map_of c k of None \<Rightarrow> 1 | Some n \<Rightarrow> n + 1))"
  by (simp add: counter_add_def map_of_dict_setitem split: option.splits)

lemma distinct_counter_add:
  "distinct (map fst c) \<Longrightarrow> distinct (map fst (counter_add k c))"
  by (simp add: counter_add_def distinct_dict_setitem split: option.splits)

lemma map_of_counter_fold:
  "map_of (foldl (\<lambda>c k. counter_add k c) acc xs) k =
     (case map_of acc k of
        None \<Rightarrow> (if k \<in> set xs then Some (count_list xs k) else None)
      | Some n \<Rightarrow> Some (n + count_list xs k))"
proof (induction xs arbitrary: acc)
  case Nil
  then show ?case by (simp split: option.splits)
next
  case (Cons x xs)
  show ?case
    by (simp add: Cons.IH map_of_counter_add count_list_0_iff split: option.splits)
qed

lemma distinct_counter_fold:
  "distinct (map fst acc) \<Longrightarrow> distinct (map fst (foldl (\<lambda>c k. counter_add k c) acc xs))"
  by (induction xs arbitrary: acc) (simp_all add: distinct_counter_add)

lemma Counter_items:
  "(c, n) \<in> set (Counter xs) \<longleftrightarrow> c \<in> set xs \<and> n = count_list xs c"
proof -
  have d: "distinct (map fst (Counter xs))"
    unfolding Counter_def by (rule distinct_counter_fold) simp
  have "(c, n) \<in> set (Counter xs) \<longleftrightarrow> map_of (Counter xs) c = Some n"
    using d by simp
  also have "\<dots> \<longleftrightarrow> c \<in> set xs \<and> n = count_list xs c"
    unfolding Counter_def by (auto simp: map_of_counter_fold)
  finally show ?thesis .
qed

lemma distinct_count_list: "distinct xs \<longleftrightarrow> (\<forall>x \<in> set xs. count_list xs x \<le> 1)"
proof (induction xs)
  case Nil
  then show ?case by simp
next
  case (Cons a xs)
  have "count_list xs a = 0 \<longleftrightarrow> a \<notin> set xs"
    by (rule count_list_0_iff)
  with Cons show ?case by auto
qed

lemma validate_columns_distinct: "distinct cols \<Longrightarrow> validate_columns cols = Inr ()"
proof -
  assume "distinct cols"
  then have "\<forall>x \<in> set cols. count_list cols x \<le> 1"
    by (simp add: distinct_count_list)
  then have "find (\<lambda>(col, count). count > 1) (Counter cols) = None"
    by (auto simp: find_None_iff Counter_items)
  then show ?thesis by (simp add: validate_columns_def)
qed

lemma validate_columns_duplicate:
  assumes "\<not> distinct cols"
  shows "\<exists>col count. col \<in> set cols \<and> count = count_list cols col \<and> 1 < count \<and>
           validate_columns cols = Inl (DuplicateName col count)"
proof -
  from assms obtain x where x: "x \<in> set cols" "1 < count_list cols x"
    by (auto simp: distinct_count_list not_le)
  then have "(x, count_list cols x) \<in> set (Counter cols)"
    by (simp add: Counter_items)
  with x have "find (\<lambda>(col, count). count > 1) (Counter cols) \<noteq> None"
    by (auto simp: find_None_iff)
  then obtain col count where f: "find (\<lambda>(col, count). count > 1) (Counter cols) = Some (col, count)"
    by (cases "find (\<lambda>(col, count). count > 1) (Counter cols)") auto
  then have "(col, count) \<in> set (Counter cols)" "1 < count"
    by (auto simp: find_Some_iff dest: nth_mem)
  then have "col \<in> set cols" "count = count_list cols col" "1 < count"
    by (simp_all add: Counter_items)
  moreover from f have "validate_columns cols = Inl (DuplicateName col count)"
    by (simp add: validate_columns_def)
  ultimately show ?thesis by blast
qed

section \<open>Claims\<close>

text \<open>
  C6. Constructing a DataFrame or a LazyFrame over an engine frame whose column names are
  all different succeeds, and keeps the frame, the api version and the names. Over a frame
  in which some name occurs more than once, both constructors raise the error
  \<^verbatim>\<open>Expected unique column names, got {col} {count} time(s)\<close>, where \<open>col\<close> is a name
  of the frame that occurs more than once and \<open>count\<close> is the number of its occurrences.
\<close>

theorem C6_construction_validates_column_names:
  "(distinct (frame_columns d) \<longrightarrow>
      DataFrame_init d v = Inr (DataFrame d v (frame_columns d)) \<and>
      LazyFrame_init d v = Inr (LazyFrame d v (frame_columns d))) \<and>
   (\<not> distinct (frame_columns d) \<longrightarrow>
      (\<exists>col count. col \<in> set (frame_columns d) \<and>
         count = count_list (frame_columns d) col \<and> 1 < count \<and>
         DataFrame_init d v = Inl (DuplicateName col count) \<and>
         LazyFrame_init d v = Inl (DuplicateName col count)))"
proof (intro conjI impI)
  assume "distinct (frame_columns d)"
  then have "validate_columns (frame_columns d) = Inr ()"
    by (rule validate_columns_distinct)
  then show "DataFrame_init d v = Inr (DataFrame d v (frame_columns d))"
    and "LazyFrame_init d v = Inr (LazyFrame d v (frame_columns d))"
    by (simp_all add: DataFrame_init_def LazyFrame_init_def)
next
  assume "\<not> distinct (frame_columns d)"
  from validate_columns_duplicate [OF this] obtain col count where
    "col \<in> set (frame_columns d)" "count = count_list (frame_columns d) col" "1 < count"
    "validate_columns (frame_columns d) = Inl (DuplicateName col count)"
    by blast
  then show "\<exists>col count. col \<in> set (frame_columns d) \<and>
         count = count_list (frame_columns d) col \<and> 1 < count \<and>
         DataFrame_init d v = Inl (DuplicateName col count) \<and>
         LazyFrame_init d v = Inl (DuplicateName col count)"
    by (auto simp: DataFrame_init_def LazyFrame_init_def)
qed

theorem C6_construction_witness:
  "distinct (frame_columns [(''a'', [I 1]), (''b'', [I 2])]) \<and>
   DataFrame_init [(''a'', [I 1]), (''b'', [I 2])] ''v1'' =
     Inr (DataFrame [(''a'', [I 1]), (''b'', [I 2])] ''v1'' [''a'', ''b'']) \<and>
   LazyFrame_init [(''a'', [I 1]), (''b'', [I 2])] ''v1'' =
     Inr (LazyFrame [(''a'', [I 1]), (''b'', [I 2])] ''v1'' [''a'', ''b'']) \<and>
   \<not> distinct (frame_columns [(''a'', [I 1]), (''b'', [I 2]), (''a'', [I 3])]) \<and>
   DataFrame_init [(''a'', [I 1]), (''b'', [I 2]), (''a'', [I 3])] ''v1'' =
     Inl (DuplicateName ''a'' 2) \<and>
   LazyFrame_init [(''a'', [I 1]), (''b'', [I 2]), (''a'', [I 3])] ''v1'' =
     Inl (DuplicateName ''a'' 2)"
  using C6_construction_validates_column_names [of "[(''a'', [I 1]), (''b'', [I 2])]" "''v1''"]
    C6_construction_validates_column_names
      [of "[(''a'', [I 1]), (''b'', [I 2]), (''a'', [I 3])]" "''v1''"]
  by (auto simp: frame_columns_def)

subsection \<open>Frames that a constructor returned\<close>

lemma DataFrame_init_Inr:
  "DataFrame_init d v = Inr D \<Longrightarrow>
     D = DataFrame d v (frame_columns d) \<and> validate_columns (frame_columns d) = Inr ()"
  by (auto simp: DataFrame_init_def split: sum.splits)

lemma LazyFrame_init_Inr:
  "LazyFrame_init d v = Inr L \<Longrightarrow>
     L = LazyFrame d v (frame_columns d) \<and> validate_columns (frame_columns d) = Inr ()"
  by (auto simp: LazyFrame_init_def split: sum.splits)

lemma lazy_of_constructed:
  "DataFrame_init d v = Inr D \<Longrightarrow> DataFrame_lazy D = Inr (LazyFrame d v (frame_columns d))"
  by (auto simp: DataFrame_lazy_def LazyFrame_init_def dest!: DataFrame_init_Inr)

lemma collect_of_constructed:
  "LazyFrame_init d v = Inr L \<Longrightarrow> LazyFrame_collect L = Inr (DataFrame d v (frame_columns d))"
  by (auto simp: LazyFrame_collect_def DataFrame_init_def dest!: LazyFrame_init_Inr)

lemma init_example:
  "LazyFrame_init [(''id'', [I 1]), (''x'', [I 2])] ''v1'' =
     Inr (LazyFrame [(''id'', [I 1]), (''x'', [I 2])] ''v1'' [''id'', ''x''])"
  "DataFrame_init [(''id'', [I 1]), (''x'', [I 2])] ''v1'' =
     Inr (DataFrame [(''id'', [I 1]), (''x'', [I 2])] ''v1'' [''id'', ''x''])"
  by (simp_all add: LazyFrame_init_def DataFrame_init_def validate_columns_def Counter_def
      counter_add_def frame_columns_def)

text \<open>
  C9. For a LazyFrame that the constructor returned, \<^verbatim>\<open>collect()\<close> succeeds and returns
  the DataFrame over the very same engine frame, with the same api version and the same
  column names: nothing of the data is transformed.
\<close>

theorem C9_collect_is_identity_wrap:
  "LazyFrame_init d v = Inr L \<Longrightarrow>
     LazyFrame_collect L =
       Inr (DataFrame (LazyFrame.dataframe L) (LazyFrame.api_version L) (LazyFrame.columns L)) \<and>
     LazyFrame.dataframe L = d"
  by (auto simp: collect_of_constructed dest: LazyFrame_init_Inr)

theorem C9_collect_witness:
  "LazyFrame_init [(''id'', [I 1]), (''x'', [I 2])] ''v1'' =
     Inr (LazyFrame [(''id'', [I 1]), (''x'', [I 2])] ''v1'' [''id'', ''x'']) \<and>
   LazyFrame_collect (LazyFrame [(''id'', [I 1]), (''x'', [I 2])] ''v1'' [''id'', ''x'']) =
     Inr (DataFrame [(''id'', [I 1]), (''x'', [I 2])] ''v1'' [''id'', ''x''])"
  using init_example(1) C9_collect_is_identity_wrap [OF init_example(1)] by simp

text \<open>
  C3. A join whose \<open>how\<close> is not \<^verbatim>\<open>inner\<close> raises the error \<^verbatim>\<open>Only inner join supported\<close>,
  whatever the frames, the keys and the merge of the engine are: the overlap of the
  columns plays no part, and the state of the engine comes back untouched, so the merge
  has not run. The eager \<^verbatim>\<open>DataFrame.join\<close> over constructed frames does the same.
\<close>

theorem C3_join_not_inner_unsupported:
  "how \<noteq> ''inner'' \<Longrightarrow>
     LazyFrame_join merge self other how left_on right_on s = (Inl NotSupported, s) \<and>
     (DataFrame_init d v = Inr D \<and> DataFrame_init d' v' = Inr D' \<longrightarrow>
        DataFrame_join merge D D' how left_on right_on s = (Inl NotSupported, s))"
  by (auto simp: LazyFrame_join_def DataFrame_join_def lazy_of_constructed)

theorem C3_join_witness:
  "''left'' \<noteq> ''inner'' \<and>
   LazyFrame_join (\<lambda>a b l r h (n::nat). (Inl (KeyError ''k''), Suc n))
     (LazyFrame [(''id'', [I 1]), (''x'', [I 2])] ''v1'' [''id'', ''x''])
     (LazyFrame [(''id'', [I 1]), (''x'', [I 2])] ''v1'' [''id'', ''x''])
     ''left'' (Str ''id'') (Str ''id'') 0 = (Inl NotSupported, 0) \<and>
   DataFrame_join (\<lambda>a b l r h (n::nat). (Inl (KeyError ''k''), Suc n))
     (DataFrame [(''id'', [I 1]), (''x'', [I 2])] ''v1'' [''id'', ''x''])
     (DataFrame [(''id'', [I 1]), (''x'', [I 2])] ''v1'' [''id'', ''x''])
     ''left'' (Str ''id'') (Str ''id'') 0 = (Inl NotSupported, 0)"
  using C3_join_not_inner_unsupported [of "''left''"
      "(\<lambda>a b l r h (n::nat). (Inl (KeyError ''k''), Suc n))"
      "LazyFrame [(''id'', [I 1]), (''x'', [I 2])] ''v1'' [''id'', ''x'']"
      "LazyFrame [(''id'', [I 1]), (''x'', [I 2])] ''v1'' [''id'', ''x'']"
      "Str ''id''" "Str ''id''" 0
      "[(''id'', [I 1]), (''x'', [I 2])]" "''v1''"
      "DataFrame [(''id'', [I 1]), (''x'', [I 2])] ''v1'' [''id'', ''x'']"
      "[(''id'', [I 1]), (''x'', [I 2])]" "''v1''"
      "DataFrame [(''id'', [I 1]), (''x'', [I 2])] ''v1'' [''id'', ''x'']"]
    init_example(2)
  by simp

text \<open>
  C4. An inner join normalizes \<open>left_on\<close> and \<open>right_on\<close> to lists (a string becomes the
  list of that string) and computes the overlap: the columns of the left frame that are
  not left keys, intersected with the columns of the right frame that are not right keys.
  If the overlap is not empty the join raises \<^verbatim>\<open>Found overlapping columns in join\<close> with
  the whole overlap in its message, and the state of the engine comes back untouched: the
  merge has not run. If the overlap is empty the join is the merge of the engine on the
  two frames with the normalized keys and \<^verbatim>\<open>inner\<close>, wrapped by the constructor.
\<close>

theorem C4_inner_join_overlap_check:
  "join_overlap self other (normalize_on left_on) (normalize_on right_on) =
     (set (LazyFrame.columns self) - set (normalize_on left_on)) \<inter>
     (set (LazyFrame.columns other) - set (normalize_on right_on)) \<and>
   normalize_on (Str k) = [k] \<and> normalize_on (Lst ks) = ks \<and>
   (join_overlap self other (normalize_on left_on) (normalize_on right_on) \<noteq> {} \<longrightarrow>
      LazyFrame_join merge self other ''inner'' left_on right_on s =
        (Inl (NameCollision
           (join_overlap self other (normalize_on left_on) (normalize_on right_on))), s)) \<and>
   (join_overlap self other (normalize_on left_on) (normalize_on right_on) = {} \<longrightarrow>
      LazyFrame_join merge self other ''inner'' left_on right_on s =
        (case merge (LazyFrame.dataframe self) (LazyFrame.dataframe other)
                (normalize_on left_on) (normalize_on right_on) ''inner'' s of
           (Inl e, s') \<Rightarrow> (Inl e, s')
         | (Inr d, s') \<Rightarrow> (LazyFrame_from_dataframe self d, s')))"
  by (simp add: LazyFrame_join_def join_overlap_def normalize_on_def Let_def)

theorem C4_inner_join_witness:
  "LazyFrame_join (\<lambda>a b l r h (n::nat). (Inr (a @ b), Suc n))
     (LazyFrame [(''id'', [I 1]), (''x'', [I 2])] ''v1'' [''id'', ''x''])
     (LazyFrame [(''id'', [I 1]), (''x'', [I 3])] ''v1'' [''id'', ''x''])
     ''inner'' (Str ''id'') (Lst [''id'']) 0 = (Inl (NameCollision {''x''}), 0) \<and>
   LazyFrame_join (\<lambda>a b l r h (n::nat). (Inr (a @ filter (\<lambda>c. fst c \<notin> set r) b), Suc n))
     (LazyFrame [(''id'', [I 1]), (''x'', [I 2])] ''v1'' [''id'', ''x''])
     (LazyFrame [(''id'', [I 1]), (''y'', [I 3])] ''v1'' [''id'', ''y''])
     ''inner'' (Str ''id'') (Lst [''id'']) 0 =
     (Inr (LazyFrame [(''id'', [I 1]), (''x'', [I 2]), (''y'', [I 3])] ''v1''
        [''id'', ''x'', ''y'']), 1)"
proof -
  have o1: "join_overlap (LazyFrame [(''id'', [I 1]), (''x'', [I 2])] ''v1'' [''id'', ''x''])
      (LazyFrame [(''id'', [I 1]), (''x'', [I 3])] ''v1'' [''id'', ''x''])
      (normalize_on (Str ''id'')) (normalize_on (Lst [''id''])) = {''x''}"
    by (auto simp: join_overlap_def normalize_on_def)
  have o2: "join_overlap (LazyFrame [(''id'', [I 1]), (''x'', [I 2])] ''v1'' [''id'', ''x''])
      (LazyFrame [(''id'', [I 1]), (''y'', [I 3])] ''v1'' [''id'', ''y''])
      (normalize_on (Str ''id'')) (normalize_on (Lst [''id''])) = {}"
    by (auto simp: join_overlap_def normalize_on_def)
  have i: "LazyFrame_init [(''id'', [I 1]), (''x'', [I 2]), (''y'', [I 3])] ''v1'' =
      Inr (LazyFrame [(''id'', [I 1]), (''x'', [I 2]), (''y'', [I 3])] ''v1''
        [''id'', ''x'', ''y''])"
    by (simp add: LazyFrame_init_def validate_columns_def Counter_def counter_add_def
        frame_columns_def)
  show ?thesis
    using C4_inner_join_overlap_check
        [of "LazyFrame [(''id'', [I 1]), (''x'', [I 2])] ''v1'' [''id'', ''x'']"
          "LazyFrame [(''id'', [I 1]), (''x'', [I 3])] ''v1'' [''id'', ''x'']"
          "Str ''id''" "Lst [''id'']" "''id''" "[''id'']"
          "(\<lambda>a b l r h (n::nat). (Inr (a @ b), Suc n))" 0]
      C4_inner_join_overlap_check
        [of "LazyFrame [(''id'', [I 1]), (''x'', [I 2])] ''v1'' [''id'', ''x'']"
          "LazyFrame [(''id'', [I 1]), (''y'', [I 3])] ''v1'' [''id'', ''y'']"
          "Str ''id''" "Lst [''id'']" "''id''" "[''id'']"
          "(\<lambda>a b l r h (n::nat). (Inr (a @ filter (\<lambda>c. fst c \<notin> set r) b), Suc n))" 0]
    by (simp add: o1 o2 i normalize_on_def LazyFrame_from_dataframe_def)
qed

text \<open>
  C10. Whatever the api version, the namespace of a DataFrame and of a LazyFrame of this
  backend is the \<^verbatim>\<open>Namespace\<close> of the pandas package, built with the frame's api
  version; \<^verbatim>\<open>group_by\<close> returns the \<^verbatim>\<open>GroupBy\<close>, respectively the \<^verbatim>\<open>LazyGroupBy\<close>, of the
  pandas package over the frame itself, the flattened keys and the frame's api version.
\<close>

theorem C10_pandas_namespace_and_group_by:
  "DataFrame_dataframe_namespace D = Namespace pandas (DataFrame.api_version D) \<and>
   LazyFrame_lazyframe_namespace L = Namespace pandas (LazyFrame.api_version L) \<and>
   ns_package (DataFrame_dataframe_namespace (DataFrame d v c)) = pandas \<and>
   ns_package (LazyFrame_lazyframe_namespace (LazyFrame d v c)) = pandas \<and>
   DataFrame_group_by D keys = GroupBy pandas D (flatten_str keys) (DataFrame.api_version D) \<and>
   LazyFrame_group_by L keys = LazyGroupBy pandas L (flatten_str keys) (LazyFrame.api_version L)"
  by (simp add: DataFrame_dataframe_namespace_def LazyFrame_lazyframe_namespace_def
      DataFrame_group_by_def LazyFrame_group_by_def)

subsection \<open>Dictionaries of Series\<close>

lemma dict_setitem_present:
  "k \<in> set (map fst d) \<Longrightarrow>
     \<exists>i<length d. fst (d ! i) = k \<and> (\<forall>j<i. fst (d ! j) \<noteq> k) \<and>
        dict_setitem k v d = d[i := (k, v)]"
proof (induction d)
  case Nil
  then show ?case by simp
next
  case (Cons p d)
  show ?case
  proof (cases "fst p = k")
    case True
    then have "dict_setitem k v (p # d) = (p # d)[0 := (k, v)]"
      by (cases p) simp
    with True show ?thesis by (intro exI [of _ 0]) simp
  next
    case False
    with Cons.prems have "k \<in> set (map fst d)" by auto
    from Cons.IH [OF this] obtain i where i: "i < length d" "fst (d ! i) = k"
      "\<forall>j<i. fst (d ! j) \<noteq> k" "dict_setitem k v d = d[i := (k, v)]"
      by blast
    have "dict_setitem k v (p # d) = (p # d)[Suc i := (k, v)]"
      using False i(4) by (cases p) simp
    moreover have "\<forall>j<Suc i. fst ((p # d) ! j) \<noteq> k"
      using False i(3) by (auto simp: less_Suc_eq_0_disj)
    ultimately show ?thesis using i(1,2) by (intro exI [of _ "Suc i"]) simp
  qed
qed

lemma dict_setitem_absent:
  "k \<notin> set (map fst d) \<Longrightarrow> dict_setitem k v d = d @ [(k, v)]"
  by (induction d) auto

lemma distinct_series_dict_fold:
  "distinct (map fst acc) \<Longrightarrow>
     distinct (map fst (foldl (\<lambda>d s. dict_setitem (name s) (series s) d) acc ss))"
  by (induction ss arbitrary: acc) (simp_all add: distinct_dict_setitem)

lemma distinct_series_dict: "distinct (map fst (series_dict ss))"
  unfolding series_dict_def by (rule distinct_series_dict_fold) simp

lemma set_keys_dict_setitem:
  "set (map fst (dict_setitem k v d)) = insert k (set (map fst d))"
  by (auto simp: keys_dict_setitem)

lemma keys_series_dict_fold:
  "set (map fst (foldl (\<lambda>d s. dict_setitem (name s) (series s) d) acc ss)) =
     set (map fst acc) \<union> name ` set ss"
proof (induction ss arbitrary: acc)
  case Nil
  then show ?case by simp
next
  case (Cons s ss)
  have "set (map fst (foldl (\<lambda>d s. dict_setitem (name s) (series s) d) acc (s # ss))) =
      set (map fst (dict_setitem (name s) (series s) acc)) \<union> name ` set ss"
    using Cons.IH [of "dict_setitem (name s) (series s) acc"] by simp
  also have "\<dots> = set (map fst acc) \<union> name ` set (s # ss)"
    unfolding set_keys_dict_setitem by auto
  finally show ?case .
qed

lemma select_collapses_duplicates:
  assumes "evaluate_into_exprs self exprs = Inr new_series" "new_series \<noteq> []"
  shows "\<exists>d. LazyFrame_select evaluate_into_exprs self exprs =
            Inr (LazyFrame d (LazyFrame.api_version self) (frame_columns d)) \<and>
          d = series_dict new_series \<and> distinct (frame_columns d) \<and>
          set (frame_columns d) = name ` set new_series"
proof -
  let ?d = "series_dict new_series"
  have k: "set (frame_columns ?d) = name ` set new_series"
    unfolding series_dict_def frame_columns_def using keys_series_dict_fold [of "[]" new_series]
    by simp
  with assms(2) have ne: "?d \<noteq> []" by (auto simp: frame_columns_def)
  have "distinct (frame_columns ?d)"
    by (simp add: frame_columns_def distinct_series_dict)
  then have "validate_columns (frame_columns ?d) = Inr ()"
    by (rule validate_columns_distinct)
  then show ?thesis
    using assms(1) ne k \<open>distinct (frame_columns ?d)\<close>
    by (simp add: LazyFrame_select_def pd_concat_def LazyFrame_from_dataframe_def
        LazyFrame_init_def)
qed

lemma init_example3:
  "LazyFrame_init [(''a'', [I 1, I 2, I 3]), (''b'', [I 10, I 20, I 30])] ''v1'' =
     Inr (LazyFrame [(''a'', [I 1, I 2, I 3]), (''b'', [I 10, I 20, I 30])] ''v1'' [''a'', ''b''])"
  "DataFrame_init [(''a'', [I 1, I 2, I 3]), (''b'', [I 10, I 20, I 30])] ''v1'' =
     Inr (DataFrame [(''a'', [I 1, I 2, I 3]), (''b'', [I 10, I 20, I 30])] ''v1'' [''a'', ''b''])"
  by (simp_all add: LazyFrame_init_def DataFrame_init_def validate_columns_def Counter_def
      counter_add_def frame_columns_def)

text \<open>
  C1, evaluated where it fails. The frame has the columns \<open>a\<close> and \<open>b\<close>; the
  expressions evaluate to two Series that are both named \<open>x\<close>, the first holding column
  \<open>a\<close> and the second column \<open>b\<close>. The dictionary comprehension of \<^verbatim>\<open>select\<close> keeps one
  entry per name, so the constructor sees the single name \<open>x\<close>: no error is raised and the
  result has the one column \<open>x\<close> with the cells of \<open>b\<close>; the first Series is dropped.
  By \<open>select_collapses_duplicates\<close> this is so for every non-empty list of Series.
\<close>

theorem C1_select_duplicate_names_evaluated:
  "LazyFrame_select
     (\<lambda>self exprs. Inr [Series ''x'' (column (LazyFrame.dataframe self) ''a''),
                         Series ''x'' (column (LazyFrame.dataframe self) ''b'')])
     (LazyFrame [(''a'', [I 1, I 2]), (''b'', [I 3, I 4])] ''v1'' [''a'', ''b'']) () =
   Inr (LazyFrame [(''x'', [I 3, I 4])] ''v1'' [''x''])"
  by (simp add: LazyFrame_select_def series_dict_def pd_concat_def LazyFrame_from_dataframe_def
      LazyFrame_init_def validate_columns_def Counter_def counter_add_def frame_columns_def
      column_def)

text \<open>
  C7. Let \<open>F\<close> be a constructed LazyFrame over the engine frame \<open>d\<close> and let the expression
  evaluate to the one Series named \<open>n\<close> with cells \<open>vs\<close>. If \<open>n\<close> is a column of \<open>F\<close>,
  say the one at position \<open>i\<close>, then \<^verbatim>\<open>with_columns\<close> returns the frame \<open>d\<close> with the entry at
  position \<open>i\<close> replaced by \<open>(n, vs)\<close>: every other column, with its cells in their order,
  and the list of column names are unchanged. If \<open>n\<close> is a new name, the result is \<open>d\<close>
  with \<open>(n, vs)\<close> appended as the last column. In both cases the number of rows is
  unchanged when the Series has as many cells as the frame has rows.
\<close>

theorem C7_with_columns_upsert:
  assumes "LazyFrame_init d v = Inr F"
    and "evaluate_into_exprs F exprs = Inr [Series n vs]"
  shows "(n \<in> set (frame_columns d) \<longrightarrow>
           (\<exists>i<length d. frame_columns d ! i = n \<and>
              LazyFrame_with_columns evaluate_into_exprs F exprs =
                Inr (LazyFrame (d[i := (n, vs)]) v (frame_columns d)) \<and>
              (length vs = nrows d \<longrightarrow> nrows (d[i := (n, vs)]) = nrows d))) \<and>
         (n \<notin> set (frame_columns d) \<longrightarrow>
            LazyFrame_with_columns evaluate_into_exprs F exprs =
              Inr (LazyFrame (d @ [(n, vs)]) v (frame_columns d @ [n])) \<and>
            (length vs = nrows d \<longrightarrow> nrows (d @ [(n, vs)]) = nrows d))"
proof -
  from assms(1) have F: "F = LazyFrame d v (frame_columns d)"
    and val: "validate_columns (frame_columns d) = Inr ()"
    by (auto dest: LazyFrame_init_Inr)
  have wc: "LazyFrame_with_columns evaluate_into_exprs F exprs =
      LazyFrame_init (dict_setitem n vs d) v"
    using assms(2) F
    by (simp add: LazyFrame_with_columns_def series_dict_def assign_def
        LazyFrame_from_dataframe_def)
  show ?thesis
  proof (intro conjI impI)
    assume "n \<in> set (frame_columns d)"
    then have "n \<in> set (map fst d)" by (simp add: frame_columns_def)
    from dict_setitem_present [OF this, of vs] obtain i where
      i: "i < length d" "fst (d ! i) = n" "dict_setitem n vs d = d[i := (n, vs)]"
      by blast
    have cols: "frame_columns (d[i := (n, vs)]) = frame_columns d"
      using i(1,2) by (simp add: frame_columns_def map_update list_update_same_conv)
    have "LazyFrame_with_columns evaluate_into_exprs F exprs =
        Inr (LazyFrame (d[i := (n, vs)]) v (frame_columns d))"
      using wc i(3) cols val by (simp add: LazyFrame_init_def)
    moreover have "length vs = nrows d \<longrightarrow> nrows (d[i := (n, vs)]) = nrows d"
      using i(1) by (cases d; cases i) (auto simp: nrows_def)
    moreover have "frame_columns d ! i = n"
      using i(1,2) by (simp add: frame_columns_def)
    ultimately show "\<exists>i<length d. frame_columns d ! i = n \<and>
              LazyFrame_with_columns evaluate_into_exprs F exprs =
                Inr (LazyFrame (d[i := (n, vs)]) v (frame_columns d)) \<and>
              (length vs = nrows d \<longrightarrow> nrows (d[i := (n, vs)]) = nrows d)"
      using i(1) by blast
  next
    assume a: "n \<notin> set (frame_columns d)"
    then have eq: "dict_setitem n vs d = d @ [(n, vs)]"
      by (simp add: frame_columns_def dict_setitem_absent)
    from val have "distinct (frame_columns d)"
      using validate_columns_duplicate [of "frame_columns d"] by auto
    with a have "distinct (frame_columns (d @ [(n, vs)]))"
      by (simp add: frame_columns_def)
    then have "validate_columns (frame_columns (d @ [(n, vs)])) = Inr ()"
      by (rule validate_columns_distinct)
    then show "LazyFrame_with_columns evaluate_into_exprs F exprs =
              Inr (LazyFrame (d @ [(n, vs)]) v (frame_columns d @ [n]))"
      using wc eq by (simp add: LazyFrame_init_def frame_columns_def)
  next
    assume "n \<notin> set (frame_columns d)" "length vs = nrows d"
    then show "nrows (d @ [(n, vs)]) = nrows d"
      by (cases d) (auto simp: nrows_def)
  qed
qed

theorem C7_with_columns_witness:
  "LazyFrame_with_columns (\<lambda>self exprs. Inr [Series ''b'' [I 7, I 8, I 9]])
     (LazyFrame [(''a'', [I 1, I 2, I 3]), (''b'', [I 10, I 20, I 30])] ''v1'' [''a'', ''b'']) () =
     Inr (LazyFrame [(''a'', [I 1, I 2, I 3]), (''b'', [I 7, I 8, I 9])] ''v1'' [''a'', ''b'']) \<and>
   LazyFrame_with_columns (\<lambda>self exprs. Inr [Series ''c'' [I 11, I 22, I 33]])
     (LazyFrame [(''a'', [I 1, I 2, I 3]), (''b'', [I 10, I 20, I 30])] ''v1'' [''a'', ''b'']) () =
     Inr (LazyFrame [(''a'', [I 1, I 2, I 3]), (''b'', [I 10, I 20, I 30]),
                     (''c'', [I 11, I 22, I 33])] ''v1'' [''a'', ''b'', ''c'']) \<and>
   nrows [(''a'', [I 1, I 2, I 3]), (''b'', [I 10, I 20, I 30]), (''c'', [I 11, I 22, I 33])] =
     nrows [(''a'', [I 1, I 2, I 3]), (''b'', [I 10, I 20, I 30])]"
  using C7_with_columns_upsert [OF init_example3(1),
      of "\<lambda>self exprs. Inr [Series ''b'' [I 7, I 8, I 9]]" "()" "''b''" "[I 7, I 8, I 9]"]
    C7_with_columns_upsert [OF init_example3(1),
      of "\<lambda>self exprs. Inr [Series ''c'' [I 11, I 22, I 33]]" "()" "''c''" "[I 11, I 22, I 33]"]
  by (auto simp: frame_columns_def nrows_def less_Suc_eq numeral_2_eq_2)

subsection \<open>Collecting the result of a lazy operation\<close>

lemma collect_from_dataframe:
  "LazyFrame_from_dataframe self d = Inr r \<Longrightarrow> LazyFrame_collect r = Inr (eager r)"
  unfolding LazyFrame_from_dataframe_def eager_def
  by (auto simp: collect_of_constructed dest: LazyFrame_init_Inr)

lemma collect_select:
  "LazyFrame_select ev l e = Inr r \<Longrightarrow> LazyFrame_collect r = Inr (eager r)"
  by (auto simp: LazyFrame_select_def split: sum.splits dest: collect_from_dataframe)

lemma collect_filter:
  "LazyFrame_filter ah ll l p = Inr r \<Longrightarrow> LazyFrame_collect r = Inr (eager r)"
  by (auto simp: LazyFrame_filter_def Let_def split: sum.splits list.splits
      dest: collect_from_dataframe)

lemma collect_with_columns:
  "LazyFrame_with_columns ev l e = Inr r \<Longrightarrow> LazyFrame_collect r = Inr (eager r)"
  by (auto simp: LazyFrame_with_columns_def split: sum.splits dest: collect_from_dataframe)

lemma collect_sort:
  "LazyFrame_sort l ks ds = Inr r \<Longrightarrow> LazyFrame_collect r = Inr (eager r)"
  by (auto simp: LazyFrame_sort_def Let_def split: sum.splits dest: collect_from_dataframe)

lemma collect_join:
  "LazyFrame_join merge l l' how lo ro s = (Inr r, s') \<Longrightarrow> LazyFrame_collect r = Inr (eager r)"
  by (auto simp: LazyFrame_join_def Let_def split: sum.splits if_splits prod.splits
      dest: collect_from_dataframe)

text \<open>
  C2. Each of \<^verbatim>\<open>select\<close>, \<^verbatim>\<open>filter\<close>, \<^verbatim>\<open>with_columns\<close>, \<^verbatim>\<open>sort\<close> and \<^verbatim>\<open>join\<close> of a
  DataFrame is the chain \<^verbatim>\<open>lazy()\<close>, the operation of the LazyFrame, \<^verbatim>\<open>collect()\<close>, the
  first error ending the chain (for \<^verbatim>\<open>join\<close> the other frame is made lazy as well, and
  the state of the engine is handed through). For constructed DataFrames neither
  \<^verbatim>\<open>lazy()\<close> nor \<^verbatim>\<open>collect()\<close> fails or changes anything: the eager result is the lazy
  result over the same engine frame, re-wrapped, and an error of the lazy operation is
  the error of the eager one.
\<close>

theorem C2_eager_is_lazy_then_collect:
  "DataFrame_select ev D e =
     and_then (DataFrame_lazy D) (\<lambda>l. and_then (LazyFrame_select ev l e) LazyFrame_collect) \<and>
   DataFrame_filter ah ll D p =
     and_then (DataFrame_lazy D) (\<lambda>l. and_then (LazyFrame_filter ah ll l p) LazyFrame_collect) \<and>
   DataFrame_with_columns ev D e =
     and_then (DataFrame_lazy D)
       (\<lambda>l. and_then (LazyFrame_with_columns ev l e) LazyFrame_collect) \<and>
   DataFrame_sort D ks ds =
     and_then (DataFrame_lazy D) (\<lambda>l. and_then (LazyFrame_sort l ks ds) LazyFrame_collect) \<and>
   DataFrame_join merge D D' how lo ro s =
     (case DataFrame_lazy D of
        Inl x \<Rightarrow> (Inl x, s)
      | Inr l \<Rightarrow>
          (case DataFrame_lazy D' of
             Inl x \<Rightarrow> (Inl x, s)
           | Inr l' \<Rightarrow>
               (case LazyFrame_join merge l l' how lo ro s of
                  (r, s') \<Rightarrow> (and_then r LazyFrame_collect, s')))) \<and>
   (DataFrame_init d v = Inr D \<and> DataFrame_init d' v' = Inr D' \<longrightarrow>
      DataFrame_select ev D e =
        map_sum id eager (LazyFrame_select ev (LazyFrame d v (frame_columns d)) e) \<and>
      DataFrame_filter ah ll D p =
        map_sum id eager (LazyFrame_filter ah ll (LazyFrame d v (frame_columns d)) p) \<and>
      DataFrame_with_columns ev D e =
        map_sum id eager (LazyFrame_with_columns ev (LazyFrame d v (frame_columns d)) e) \<and>
      DataFrame_sort D ks ds =
        map_sum id eager (LazyFrame_sort (LazyFrame d v (frame_columns d)) ks ds) \<and>
      DataFrame_join merge D D' how lo ro s =
        map_prod (map_sum id eager) id
          (LazyFrame_join merge (LazyFrame d v (frame_columns d))
             (LazyFrame d' v' (frame_columns d')) how lo ro s))"
proof (intro conjI impI)
  show "DataFrame_select ev D e =
     and_then (DataFrame_lazy D) (\<lambda>l. and_then (LazyFrame_select ev l e) LazyFrame_collect)"
    by (simp add: DataFrame_select_def and_then_def)
  show "DataFrame_filter ah ll D p =
     and_then (DataFrame_lazy D) (\<lambda>l. and_then (LazyFrame_filter ah ll l p) LazyFrame_collect)"
    by (simp add: DataFrame_filter_def and_then_def)
  show "DataFrame_with_columns ev D e =
     and_then (DataFrame_lazy D)
       (\<lambda>l. and_then (LazyFrame_with_columns ev l e) LazyFrame_collect)"
    by (simp add: DataFrame_with_columns_def and_then_def)
  show "DataFrame_sort D ks ds =
     and_then (DataFrame_lazy D) (\<lambda>l. and_then (LazyFrame_sort l ks ds) LazyFrame_collect)"
    by (simp add: DataFrame_sort_def and_then_def)
  show "DataFrame_join merge D D' how lo ro s =
     (case DataFrame_lazy D of
        Inl x \<Rightarrow> (Inl x, s)
      | Inr l \<Rightarrow>
          (case DataFrame_lazy D' of
             Inl x \<Rightarrow> (Inl x, s)
           | Inr l' \<Rightarrow>
               (case LazyFrame_join merge l l' how lo ro s of
                  (r, s') \<Rightarrow> (and_then r LazyFrame_collect, s'))))"
    by (simp add: DataFrame_join_def and_then_def split: sum.splits prod.splits)
next
  assume c: "DataFrame_init d v = Inr D \<and> DataFrame_init d' v' = Inr D'"
  then have l: "DataFrame_lazy D = Inr (LazyFrame d v (frame_columns d))"
    and l': "DataFrame_lazy D' = Inr (LazyFrame d' v' (frame_columns d'))"
    by (simp_all add: lazy_of_constructed)
  show "DataFrame_select ev D e =
        map_sum id eager (LazyFrame_select ev (LazyFrame d v (frame_columns d)) e)"
    by (cases "LazyFrame_select ev (LazyFrame d v (frame_columns d)) e")
      (simp_all add: DataFrame_select_def l collect_select)
  show "DataFrame_filter ah ll D p =
        map_sum id eager (LazyFrame_filter ah ll (LazyFrame d v (frame_columns d)) p)"
    by (cases "LazyFrame_filter ah ll (LazyFrame d v (frame_columns d)) p")
      (simp_all add: DataFrame_filter_def l collect_filter)
  show "DataFrame_with_columns ev D e =
        map_sum id eager (LazyFrame_with_columns ev (LazyFrame d v (frame_columns d)) e)"
    by (cases "LazyFrame_with_columns ev (LazyFrame d v (frame_columns d)) e")
      (simp_all add: DataFrame_with_columns_def l collect_with_columns)
  show "DataFrame_sort D ks ds =
        map_sum id eager (LazyFrame_sort (LazyFrame d v (frame_columns d)) ks ds)"
    by (cases "LazyFrame_sort (LazyFrame d v (frame_columns d)) ks ds")
      (simp_all add: DataFrame_sort_def l collect_sort)
  show "DataFrame_join merge D D' how lo ro s =
        map_prod (map_sum id eager) id
          (LazyFrame_join merge (LazyFrame d v (frame_columns d))
             (LazyFrame d' v' (frame_columns d')) how lo ro s)"
  proof (cases "LazyFrame_join merge (LazyFrame d v (frame_columns d))
             (LazyFrame d' v' (frame_columns d')) how lo ro s")
    case (Pair r s')
    then show ?thesis
      by (cases r) (simp_all add: DataFrame_join_def l l' collect_join)
  qed
qed

theorem C2_eager_witness:
  "DataFrame_init [(''a'', [I 1, I 2, I 3]), (''b'', [I 10, I 20, I 30])] ''v1'' =
     Inr (DataFrame [(''a'', [I 1, I 2, I 3]), (''b'', [I 10, I 20, I 30])] ''v1'' [''a'', ''b'']) \<and>
   DataFrame_init [(''id'', [I 1]), (''x'', [I 2])] ''v1'' =
     Inr (DataFrame [(''id'', [I 1]), (''x'', [I 2])] ''v1'' [''id'', ''x'']) \<and>
   DataFrame_with_columns (\<lambda>self exprs. Inr [Series ''c'' [I 11, I 22, I 33]])
     (DataFrame [(''a'', [I 1, I 2, I 3]), (''b'', [I 10, I 20, I 30])] ''v1'' [''a'', ''b'']) () =
     Inr (DataFrame [(''a'', [I 1, I 2, I 3]), (''b'', [I 10, I 20, I 30]),
                     (''c'', [I 11, I 22, I 33])] ''v1'' [''a'', ''b'', ''c'']) \<and>
   DataFrame_join (\<lambda>a b l r h (n::nat). (Inr (a @ b), Suc n))
     (DataFrame [(''a'', [I 1, I 2, I 3]), (''b'', [I 10, I 20, I 30])] ''v1'' [''a'', ''b''])
     (DataFrame [(''id'', [I 1]), (''x'', [I 2])] ''v1'' [''id'', ''x''])
     ''outer'' (Str ''a'') (Str ''id'') 0 = (Inl NotSupported, 0)"
proof -
  note t = C2_eager_is_lazy_then_collect
      [where D = "DataFrame [(''a'', [I 1, I 2, I 3]), (''b'', [I 10, I 20, I 30])] ''v1'' [''a'', ''b'']"
         and d = "[(''a'', [I 1, I 2, I 3]), (''b'', [I 10, I 20, I 30])]" and v = "''v1''"
         and D' = "DataFrame [(''id'', [I 1]), (''x'', [I 2])] ''v1'' [''id'', ''x'']"
         and d' = "[(''id'', [I 1]), (''x'', [I 2])]" and v' = "''v1''"
         and ev = "\<lambda>self exprs. Inr [Series ''c'' [I 11, I 22, I 33]]" and e = "()"
         and ah = "\<lambda>plx (p::unit) self. Inr []" and ll = "\<lambda>d m. Inr d" and p = "()"
         and ks = "[]" and ds = "Flag False"
         and merge = "\<lambda>a b l r h (n::nat). (Inr (a @ b), Suc n)"
         and how = "''outer''" and lo = "Str ''a''" and ro = "Str ''id''" and s = 0]
  from t init_example3(2) init_example(2) have
    a: "DataFrame_with_columns (\<lambda>self exprs. Inr [Series ''c'' [I 11, I 22, I 33]])
        (DataFrame [(''a'', [I 1, I 2, I 3]), (''b'', [I 10, I 20, I 30])] ''v1'' [''a'', ''b'']) () =
      map_sum id eager
        (LazyFrame_with_columns (\<lambda>self exprs. Inr [Series ''c'' [I 11, I 22, I 33]])
          (LazyFrame [(''a'', [I 1, I 2, I 3]), (''b'', [I 10, I 20, I 30])] ''v1''
             (frame_columns [(''a'', [I 1, I 2, I 3]), (''b'', [I 10, I 20, I 30])])) ())"
    and b: "DataFrame_join (\<lambda>a b l r h (n::nat). (Inr (a @ b), Suc n))
        (DataFrame [(''a'', [I 1, I 2, I 3]), (''b'', [I 10, I 20, I 30])] ''v1'' [''a'', ''b''])
        (DataFrame [(''id'', [I 1]), (''x'', [I 2])] ''v1'' [''id'', ''x''])
        ''outer'' (Str ''a'') (Str ''id'') 0 =
      map_prod (map_sum id eager) id
        (LazyFrame_join (\<lambda>a b l r h (n::nat). (Inr (a @ b), Suc n))
          (LazyFrame [(''a'', [I 1, I 2, I 3]), (''b'', [I 10, I 20, I 30])] ''v1''
             (frame_columns [(''a'', [I 1, I 2, I 3]), (''b'', [I 10, I 20, I 30])]))
          (LazyFrame [(''id'', [I 1]), (''x'', [I 2])] ''v1''
             (frame_columns [(''id'', [I 1]), (''x'', [I 2])]))
          ''outer'' (Str ''a'') (Str ''id'') 0)"
    by blast+
  show ?thesis
    unfolding a b
    by (simp add: init_example3(2) init_example(2) LazyFrame_with_columns_def series_dict_def
        assign_def LazyFrame_from_dataframe_def LazyFrame_init_def validate_columns_def
        Counter_def counter_add_def frame_columns_def eager_def LazyFrame_join_def)
qed

subsection \<open>Rows taken by position\<close>

lemma frame_columns_take_rows: "frame_columns (take_rows d idx) = frame_columns d"
  by (simp add: frame_columns_def take_rows_def case_prod_unfold)

lemma nrows_take_rows: "nrows (take_rows d idx) = (if d = [] then 0 else length idx)"
  by (cases d) (auto simp: nrows_def take_rows_def)

lemma row_take_rows: "p < length idx \<Longrightarrow> row (take_rows d idx) p = row d (idx ! p)"
  by (simp add: row_def take_rows_def case_prod_unfold comp_def)

lemma sorted_mask_positions: "sorted_wrt (<) (mask_positions m)"
  unfolding mask_positions_def by (rule sorted_wrt_filter) simp

lemma set_mask_positions: "set (mask_positions m) = {i. i < length m \<and> m ! i = B True}"
  by (auto simp: mask_positions_def)

lemma length_mask_positions: "length (mask_positions m) \<le> length m"
  unfolding mask_positions_def using length_filter_le [of _ "[0..<length m]"] by simp

lemma from_dataframe_take_rows:
  assumes "LazyFrame_init d v = Inr F"
  shows "LazyFrame_from_dataframe F (take_rows d idx) =
           Inr (LazyFrame (take_rows d idx) v (frame_columns d))"
  using assms
  by (auto simp: LazyFrame_from_dataframe_def LazyFrame_init_def frame_columns_take_rows
      split: sum.splits)

lemma mask_positions_example: "mask_positions [B True, B False, B True] = [0, 2]"
  by (simp add: mask_positions_def upt_rec)

text \<open>
  C5, as the code has it. Let \<open>F\<close> be a constructed LazyFrame over \<open>d\<close> and let the first
  Series that \<^verbatim>\<open>all_horizontal\<close> returns hold the mask \<open>m\<close>, with one cell per row of
  \<open>F\<close>. If every cell of \<open>m\<close> is a boolean, \<^verbatim>\<open>filter\<close> returns the frame of the rows at
  the positions where \<open>m\<close> is true, and only those; the positions are increasing, so the
  retained rows keep their relative order, and the result has at most as many rows as
  \<open>F\<close>. If some cell of \<open>m\<close> is not a boolean, \<^verbatim>\<open>filter\<close> makes no check of its own
  (\<^verbatim>\<open>_validate_booleanness\<close> is not called): the mask goes to the lookup by label of the
  engine, and the outcome of that lookup, wrapped by the constructor, is the outcome of
  \<^verbatim>\<open>filter\<close>.
\<close>

theorem C5_filter_boolean_mask_keeps_order:
  assumes "LazyFrame_init d v = Inr F"
    and "all_horizontal (LazyFrame_lazyframe_namespace F) predicates F = Inr (Series n m # rest)"
    and "length m = nrows d"
  shows "(list_all is_bool m \<longrightarrow>
            LazyFrame_filter all_horizontal label_loc F predicates =
              Inr (LazyFrame (take_rows d (mask_positions m)) v (frame_columns d)) \<and>
            set (mask_positions m) = {i. i < nrows d \<and> m ! i = B True} \<and>
            sorted_wrt (<) (mask_positions m) \<and>
            (\<forall>p<length (mask_positions m).
               row (take_rows d (mask_positions m)) p = row d (mask_positions m ! p)) \<and>
            nrows (take_rows d (mask_positions m)) \<le> nrows d) \<and>
         (\<not> list_all is_bool m \<longrightarrow>
            LazyFrame_filter all_horizontal label_loc F predicates =
              and_then (label_loc d m) (LazyFrame_from_dataframe F))"
proof -
  from assms(1) have F: "LazyFrame.dataframe F = d"
    by (auto dest: LazyFrame_init_Inr)
  have val: "validate_dataframe_comparand F (Series n m) = Inr m"
    using assms(3) F by (simp add: validate_dataframe_comparand_def)
  have filt: "LazyFrame_filter all_horizontal label_loc F predicates =
      and_then (loc label_loc d m) (LazyFrame_from_dataframe F)"
    using assms(2) val F by (simp add: LazyFrame_filter_def and_then_def)
  show ?thesis
  proof (intro conjI impI allI)
    assume "list_all is_bool m"
    then show "LazyFrame_filter all_horizontal label_loc F predicates =
              Inr (LazyFrame (take_rows d (mask_positions m)) v (frame_columns d))"
      using filt from_dataframe_take_rows [OF assms(1)] by (simp add: loc_def and_then_def)
  next
    show "set (mask_positions m) = {i. i < nrows d \<and> m ! i = B True}"
      using assms(3) by (simp add: set_mask_positions)
  next
    show "sorted_wrt (<) (mask_positions m)" by (rule sorted_mask_positions)
  next
    fix p assume "p < length (mask_positions m)"
    then show "row (take_rows d (mask_positions m)) p = row d (mask_positions m ! p)"
      by (rule row_take_rows)
  next
    show "nrows (take_rows d (mask_positions m)) \<le> nrows d"
      using length_mask_positions [of m] assms(3) by (simp add: nrows_take_rows)
  next
    assume "\<not> list_all is_bool m"
    then show "LazyFrame_filter all_horizontal label_loc F predicates =
              and_then (label_loc d m) (LazyFrame_from_dataframe F)"
      using filt by (simp add: loc_def)
  qed
qed

theorem C5_filter_witness:
  "LazyFrame_filter (\<lambda>plx predicates self. Inr [Series ''m'' [B True, B False, B True]])
     range_index_loc
     (LazyFrame [(''a'', [I 1, I 2, I 3]), (''b'', [I 10, I 20, I 30])] ''v1'' [''a'', ''b'']) () =
     Inr (LazyFrame [(''a'', [I 1, I 3]), (''b'', [I 10, I 30])] ''v1'' [''a'', ''b'']) \<and>
   nrows [(''a'', [I 1, I 3]), (''b'', [I 10, I 30])] \<le> 
     nrows [(''a'', [I 1, I 2, I 3]), (''b'', [I 10, I 20, I 30])]"
  using C5_filter_boolean_mask_keeps_order [OF init_example3(1),
      of "\<lambda>plx predicates self. Inr [Series ''m'' [B True, B False, B True]]" "()"
        "''m''" "[B True, B False, B True]" "[]" range_index_loc]
  by (simp add: nrows_def is_bool_def mask_positions_example take_rows_def frame_columns_def)

text \<open>
  C5 as stated fails. The frame has the integer column \<open>a = [0, 1, 2]\<close> and the default
  index; the predicate is column \<open>a\<close> itself, so the combined mask is not boolean. No
  \<^verbatim>\<open>TypeError\<close> is raised: the lookup by label returns the rows labelled 0, 1 and 2, and
  \<^verbatim>\<open>filter\<close> returns a frame.
\<close>

theorem C5_filter_non_boolean_counterexample:
  "\<not> list_all is_bool [I 0, I 1, I 2] \<and>
   LazyFrame_filter
     (\<lambda>plx predicates self. Inr [Series ''a'' (column (LazyFrame.dataframe self) ''a'')])
     range_index_loc
     (LazyFrame [(''a'', [I 0, I 1, I 2]), (''b'', [I 10, I 20, I 30])] ''v1'' [''a'', ''b'']) () =
   Inr (LazyFrame [(''a'', [I 0, I 1, I 2]), (''b'', [I 10, I 20, I 30])] ''v1'' [''a'', ''b''])"
  by (simp add: LazyFrame_filter_def LazyFrame_lazyframe_namespace_def column_def
      validate_dataframe_comparand_def nrows_def loc_def is_bool_def range_index_loc_def
      label_of_def take_rows_def LazyFrame_from_dataframe_def LazyFrame_init_def
      validate_columns_def Counter_def counter_add_def frame_columns_def)

subsection \<open>The stable sort\<close>

lemma set_insort_by: "set (insort_by le x xs) = insert x (set xs)"
  by (induction xs) auto

lemma length_insort_by: "length (insort_by le x xs) = Suc (length xs)"
  by (induction xs) auto

lemma distinct_insort_by: "distinct (insort_by le x xs) = (x \<notin> set xs \<and> distinct xs)"
  by (induction xs) (auto simp: set_insort_by)

lemma sorted_insort_by:
  assumes total: "\<And>a b. le a b \<or> le b a"
    and trans: "\<And>a b c. le a b \<Longrightarrow> le b c \<Longrightarrow> le a c"
  shows "sorted_wrt le xs \<Longrightarrow> sorted_wrt le (insort_by le x xs)"
proof (induction xs)
  case Nil
  then show ?case by simp
next
  case (Cons y ys)
  show ?case
  proof (cases "le x y")
    case True
    with Cons.prems trans show ?thesis by auto
  next
    case False
    with total have "le y x" by blast
    with Cons False show ?thesis by (auto simp: set_insort_by)
  qed
qed

lemma filter_insort_by:
  assumes trans: "\<And>a b c. le a b \<Longrightarrow> le b c \<Longrightarrow> le a c"
  shows "filter (\<lambda>y. le a y \<and> le y a) (insort_by le x xs) =
           (if le a x \<and> le x a then x # filter (\<lambda>y. le a y \<and> le y a) xs
            else filter (\<lambda>y. le a y \<and> le y a) xs)"
proof (induction xs)
  case Nil
  then show ?case by simp
next
  case (Cons y ys)
  show ?case
  proof (cases "le x y")
    case True
    then show ?thesis by simp
  next
    case False
    have "\<not> (le a y \<and> le y a)" if "le a x" "le x a"
      using that False trans by blast
    with False Cons.IH show ?thesis by auto
  qed
qed

lemma set_stable_sort_by: "set (stable_sort_by le xs) = set xs"
  by (induction xs) (simp_all add: stable_sort_by_def set_insort_by)

lemma length_stable_sort_by: "length (stable_sort_by le xs) = length xs"
  by (induction xs) (simp_all add: stable_sort_by_def length_insort_by)

lemma distinct_stable_sort_by: "distinct (stable_sort_by le xs) = distinct xs"
  by (induction xs)
    (simp_all add: stable_sort_by_def distinct_insort_by set_stable_sort_by [unfolded stable_sort_by_def])

lemma sorted_stable_sort_by:
  assumes "\<And>a b. le a b \<or> le b a"
    and "\<And>a b c. le a b \<Longrightarrow> le b c \<Longrightarrow> le a c"
  shows "sorted_wrt le (stable_sort_by le xs)"
  by (induction xs) (simp_all add: stable_sort_by_def sorted_insort_by [OF assms])

lemma stable_sort_by_stable:
  assumes "\<And>a b c. le a b \<Longrightarrow> le b c \<Longrightarrow> le a c"
  shows "filter (\<lambda>y. le a y \<and> le y a) (stable_sort_by le xs) =
           filter (\<lambda>y. le a y \<and> le y a) xs"
proof (induction xs)
  case Nil
  then show ?case by (simp add: stable_sort_by_def)
next
  case (Cons x xs)
  have "stable_sort_by le (x # xs) = insort_by le x (stable_sort_by le xs)"
    by (simp add: stable_sort_by_def)
  then show ?case
    using filter_insort_by [of le a x "stable_sort_by le xs"] assms Cons.IH by auto
qed

subsection \<open>The order of rows\<close>

lemma val_rank_inj: "val_rank x = val_rank y \<Longrightarrow> x = y"
  by (cases x; cases y) (auto split: if_splits)

lemma val_less_irrefl: "\<not> val_less x x"
  by (simp add: val_less_def)

lemma val_less_trans: "val_less x y \<Longrightarrow> val_less y z \<Longrightarrow> val_less x z"
  unfolding val_less_def by (rule less_trans)

lemma val_less_total: "x \<noteq> y \<Longrightarrow> val_less x y \<or> val_less y x"
  unfolding val_less_def
  using val_rank_inj [of x y] linorder_less_linear [of "val_rank x" "val_rank y"] by blast

lemma val_less_asym: "val_less x y \<Longrightarrow> \<not> val_less y x"
  unfolding val_less_def by simp

lemma row_le_total: "row_le d ks i j \<or> row_le d ks j i"
proof (induction ks)
  case Nil
  then show ?case by simp
next
  case (Cons p ks)
  obtain k asc where p: "p = (k, asc)" by (cases p)
  show ?case
    using Cons val_less_total [of "column d k ! i" "column d k ! j"] by (auto simp: p)
qed

lemma row_le_trans: "row_le d ks i j \<Longrightarrow> row_le d ks j l \<Longrightarrow> row_le d ks i l"
proof (induction ks)
  case Nil
  then show ?case by simp
next
  case (Cons p ks)
  obtain k asc where p: "p = (k, asc)" by (cases p)
  let ?x = "column d k ! i" and ?y = "column d k ! j" and ?z = "column d k ! l"
  show ?case
  proof (cases "?x = ?y")
    case True
    with Cons p show ?thesis by (auto split: if_splits)
  next
    case xy: False
    show ?thesis
    proof (cases "?y = ?z")
      case True
      with Cons.prems p xy show ?thesis by (auto split: if_splits)
    next
      case yz: False
      show ?thesis
      proof (cases asc)
        case True
        with Cons.prems p xy yz have "val_less ?x ?y" "val_less ?y ?z" by auto
        then have "val_less ?x ?z" by (rule val_less_trans)
        then have "?x \<noteq> ?z" using val_less_irrefl by auto
        with \<open>val_less ?x ?z\<close> p True show ?thesis by simp
      next
        case False
        with Cons.prems p xy yz have "val_less ?z ?y" "val_less ?y ?x" by auto
        then have "val_less ?z ?x" by (rule val_less_trans)
        then have "?x \<noteq> ?z" using val_less_irrefl by auto
        with \<open>val_less ?z ?x\<close> p False show ?thesis by simp
      qed
    qed
  qed
qed

lemma row_le_tied: "row_le d ks i j \<and> row_le d ks j i \<longleftrightarrow> tied d (map fst ks) i j"
proof (induction ks)
  case Nil
  then show ?case by (simp add: tied_def)
next
  case (Cons p ks)
  obtain k asc where p: "p = (k, asc)" by (cases p)
  show ?case
    using Cons val_less_asym [of "column d k ! i" "column d k ! j"]
      val_less_asym [of "column d k ! j" "column d k ! i"]
    by (auto simp: tied_def p)
qed

lemma argsort_perm: "set (argsort d ks) = {0..<nrows d} \<and> distinct (argsort d ks) \<and>
    length (argsort d ks) = nrows d"
  by (simp add: argsort_def set_stable_sort_by distinct_stable_sort_by length_stable_sort_by)

lemma argsort_sorted: "sorted_wrt (row_le d ks) (argsort d ks)"
  unfolding argsort_def by (rule sorted_stable_sort_by [OF row_le_total row_le_trans])

lemma argsort_stable:
  "filter (tied d (map fst ks) i) (argsort d ks) = filter (tied d (map fst ks) i) [0..<nrows d]"
proof -
  have "filter (\<lambda>y. row_le d ks i y \<and> row_le d ks y i) (argsort d ks) =
      filter (\<lambda>y. row_le d ks i y \<and> row_le d ks y i) [0..<nrows d]"
    unfolding argsort_def by (rule stable_sort_by_stable) (rule row_le_trans)
  then show ?thesis by (simp add: row_le_tied)
qed

subsection \<open>Sorting a frame\<close>

lemma zip_replicate_flags:
  "zip ks (map (\<lambda>d. \<not> d) (replicate (length ks) b)) = map (\<lambda>k. (k, \<not> b)) ks"
  by (induction ks) simp_all

lemma sort_values_Flag:
  "set ks \<subseteq> set (frame_columns d) \<Longrightarrow>
     sort_values d ks (Flag a) = Inr (take_rows d (argsort d (map (\<lambda>k. (k, a)) ks)))"
  by (auto simp: sort_values_def find_None_iff split: option.splits)

lemma sort_values_Flags:
  "set ks \<subseteq> set (frame_columns d) \<Longrightarrow> length as = length ks \<Longrightarrow>
     sort_values d ks (Flags as) = Inr (take_rows d (argsort d (zip ks as)))"
  by (auto simp: sort_values_def find_None_iff split: option.splits)

lemma sort_values_replicate:
  "sort_values d ks (Flags (replicate (length ks) a)) = sort_values d ks (Flag a)"
proof -
  have "zip ks (replicate (length ks) a) = map (\<lambda>k. (k, a)) ks"
    by (induction ks) simp_all
  then show ?thesis by (simp add: sort_values_def split: option.splits)
qed

lemma filter_sorted_nth_less:
  assumes "sorted_wrt (<) (filter P xs)" "p < q" "q < length xs" "P (xs ! p)" "P (xs ! q)"
  shows "xs ! p < (xs ! q :: nat)"
proof -
  from assms(2,3) have p: "p < length xs" by simp
  have xs: "xs = take p xs @ xs ! p # drop (Suc p) xs"
    using p by (rule id_take_nth_drop)
  have "xs ! q = drop (Suc p) xs ! (q - Suc p)"
    using assms(2,3) by simp
  moreover have "q - Suc p < length (drop (Suc p) xs)"
    using assms(2,3) by simp
  ultimately have "xs ! q \<in> set (drop (Suc p) xs)"
    by (metis nth_mem)
  with assms(5) have q: "xs ! q \<in> set (filter P (drop (Suc p) xs))" by simp
  have "filter P xs = filter P (take p xs) @ xs ! p # filter P (drop (Suc p) xs)"
    using assms(4) by (subst xs) simp
  with assms(1) have "\<forall>y \<in> set (filter P (drop (Suc p) xs)). xs ! p < y"
    by (simp add: sorted_wrt_append)
  with q show ?thesis by blast
qed

lemma tied_refl: "tied d ks i i"
  by (simp add: tied_def list_all_iff)

lemma argsort_ties_keep_order:
  assumes "p < q" "q < nrows d" "tied d (map fst sk) (argsort d sk ! p) (argsort d sk ! q)"
  shows "argsort d sk ! p < argsort d sk ! q"
proof -
  let ?P = "tied d (map fst sk) (argsort d sk ! p)"
  have "sorted_wrt (<) (filter ?P [0..<nrows d])"
    by (rule sorted_wrt_filter) simp
  then have "sorted_wrt (<) (filter ?P (argsort d sk))"
    by (simp add: argsort_stable)
  moreover have "q < length (argsort d sk)"
    using assms(2) argsort_perm [of d sk] by simp
  ultimately show ?thesis
    using assms(1,3) tied_refl by (intro filter_sorted_nth_less [of ?P]) auto
qed

lemma sort_example_init:
  "LazyFrame_init [(''k'', [S ''x'', S ''y'', S ''x'']), (''v'', [I 2, I 3, I 1])] ''v1'' =
     Inr (LazyFrame [(''k'', [S ''x'', S ''y'', S ''x'']), (''v'', [I 2, I 3, I 1])] ''v1''
            [''k'', ''v''])"
  by (simp add: LazyFrame_init_def validate_columns_def Counter_def counter_add_def
      frame_columns_def)

lemma sort_example_argsort:
  "argsort [(''k'', [S ''x'', S ''y'', S ''x'']), (''v'', [I 2, I 3, I 1])]
     [(''k'', True), (''v'', True)] = [2, 0, 1]"
  "argsort [(''k'', [S ''x'', S ''y'', S ''x'']), (''v'', [I 2, I 3, I 1])]
     [(''k'', False), (''v'', False)] = [1, 0, 2]"
  "argsort [(''k'', [S ''x'', S ''y'', S ''x'']), (''v'', [I 2, I 3, I 1])]
     [(''k'', True), (''v'', False)] = [0, 2, 1]"
  "argsort [(''k'', [S ''x'', S ''y'', S ''x'']), (''v'', [I 2, I 3, I 1])]
     [(''k'', True)] = [0, 2, 1]"
  "argsort [(''k'', [S ''x'', S ''y'', S ''x'']), (''v'', [I 2, I 3, I 1])]
     [(''k'', False)] = [1, 0, 2]"
  by (simp_all add: argsort_def stable_sort_by_def nrows_def column_def val_less_def upt_rec)

text \<open>
  C8. Let \<open>F\<close> be a constructed LazyFrame over \<open>d\<close>. Called with no keys, \<^verbatim>\<open>sort\<close> sorts by
  every column of \<open>d\<close>, left to right: with one flag \<open>b\<close> for \<open>descending\<close> (\<open>False\<close> by
  default) every column has the direction \<open>\<not> b\<close>, so the default is ascending on all
  columns, and with a list \<open>ds\<close> of one flag per column the columns have the directions
  \<open>\<not> ds\<close>, element by element. In general the keys \<open>ks\<close> of the sort are the flattened
  keys, or all columns when there are none; one flag \<open>b\<close> is the same as the list that
  repeats \<open>b\<close> once per key, and when the keys are columns of \<open>d\<close> the result is the frame
  of the rows of \<open>d\<close> in the order \<open>argsort\<close> gives for the keys \<open>ks\<close> with the directions
  \<open>\<not> b\<close>, respectively \<open>\<not> ds\<close> for a list of the length of \<open>ks\<close>. For every list \<open>sk\<close> of
  keys with directions, the order \<open>argsort d sk\<close> is a permutation of the positions of the
  rows of \<open>d\<close>, it is sorted by the keys (the first key on which two rows differ decides),
  and it is stable: the rows equal to row \<open>i\<close> on every key come in the order they had in
  \<open>d\<close>, that is, of two rows of the result that are equal on every key the earlier one was
  the earlier one in \<open>d\<close>. Row \<open>p\<close> of the result is the row of \<open>d\<close> at the \<open>p\<close>-th
  position of that order.
\<close>

theorem C8_sort_default_keys_and_stability:
  assumes "LazyFrame_init d v = Inr F"
  shows "LazyFrame_sort F [] (Flag b) =
           Inr (LazyFrame (take_rows d (argsort d (map (\<lambda>k. (k, \<not> b)) (frame_columns d)))) v
                  (frame_columns d)) \<and>
         (length ds = length (frame_columns d) \<longrightarrow>
            LazyFrame_sort F [] (Flags ds) =
              Inr (LazyFrame
                     (take_rows d (argsort d (zip (frame_columns d) (map (\<lambda>d. \<not> d) ds)))) v
                     (frame_columns d))) \<and>
         (ks = (if flatten_str keys = [] then frame_columns d else flatten_str keys) \<longrightarrow>
            LazyFrame_sort F keys (Flag b) =
              LazyFrame_sort F keys (Flags (replicate (length ks) b)) \<and>
            (set ks \<subseteq> set (frame_columns d) \<longrightarrow>
               LazyFrame_sort F keys (Flag b) =
                 Inr (LazyFrame (take_rows d (argsort d (map (\<lambda>k. (k, \<not> b)) ks))) v
                        (frame_columns d)) \<and>
               (length ds = length ks \<longrightarrow>
                  LazyFrame_sort F keys (Flags ds) =
                    Inr (LazyFrame (take_rows d (argsort d (zip ks (map (\<lambda>d. \<not> d) ds)))) v
                           (frame_columns d))))) \<and>
         set (argsort d sk) = {0..<nrows d} \<and> distinct (argsort d sk) \<and>
         sorted_wrt (row_le d sk) (argsort d sk) \<and>
         filter (tied d (map fst sk) i) (argsort d sk) =
           filter (tied d (map fst sk) i) [0..<nrows d] \<and>
         (\<forall>p q. p < q \<and> q < nrows d \<and>
                tied d (map fst sk) (argsort d sk ! p) (argsort d sk ! q) \<longrightarrow>
                argsort d sk ! p < argsort d sk ! q) \<and>
         (\<forall>p<nrows d. row (take_rows d (argsort d sk)) p = row d (argsort d sk ! p))"
proof -
  from assms have F: "LazyFrame.dataframe F = d"
    by (auto dest: LazyFrame_init_Inr)
  note wrap = from_dataframe_take_rows [OF assms]
  have keyed: "LazyFrame_sort F keys' (Flag b') =
              LazyFrame_sort F keys' (Flags (replicate (length ks') b')) \<and>
            (set ks' \<subseteq> set (frame_columns d) \<longrightarrow>
               LazyFrame_sort F keys' (Flag b') =
                 Inr (LazyFrame (take_rows d (argsort d (map (\<lambda>k. (k, \<not> b')) ks'))) v
                        (frame_columns d)) \<and>
               (length ds' = length ks' \<longrightarrow>
                  LazyFrame_sort F keys' (Flags ds') =
                    Inr (LazyFrame (take_rows d (argsort d (zip ks' (map (\<lambda>d. \<not> d) ds')))) v
                           (frame_columns d))))"
    if h: "ks' = (if flatten_str keys' = [] then frame_columns d else flatten_str keys')"
    for keys' ks' b' ds'
  proof (intro conjI impI)
    have s: "LazyFrame_sort F keys' descending =
        and_then (sort_values d ks'
                    (case descending of Flag b \<Rightarrow> Flag (\<not> b)
                     | Flags ds \<Rightarrow> Flags (map (\<lambda>d. \<not> d) ds)))
          (LazyFrame_from_dataframe F)" for descending
      unfolding h by (simp add: LazyFrame_sort_def F and_then_def Let_def)
    show "LazyFrame_sort F keys' (Flag b') =
              LazyFrame_sort F keys' (Flags (replicate (length ks') b'))"
      using sort_values_replicate [of d ks' "\<not> b'"] by (simp add: s)
    assume sub: "set ks' \<subseteq> set (frame_columns d)"
    show "LazyFrame_sort F keys' (Flag b') =
                 Inr (LazyFrame (take_rows d (argsort d (map (\<lambda>k. (k, \<not> b')) ks'))) v
                        (frame_columns d))"
      using sort_values_Flag [OF sub, of "\<not> b'"] wrap by (simp add: s and_then_def)
    assume "length ds' = length ks'"
    then show "LazyFrame_sort F keys' (Flags ds') =
                    Inr (LazyFrame (take_rows d (argsort d (zip ks' (map (\<lambda>d. \<not> d) ds')))) v
                           (frame_columns d))"
      using sort_values_Flags [OF sub, of "map (\<lambda>d. \<not> d) ds'"] wrap
      by (simp add: s and_then_def)
  qed
  have e: "frame_columns d = (if flatten_str [] = [] then frame_columns d else flatten_str [])"
    by (simp add: flatten_str_def)
  have nokeys: "LazyFrame_sort F [] (Flag b) =
           Inr (LazyFrame (take_rows d (argsort d (map (\<lambda>k. (k, \<not> b)) (frame_columns d)))) v
                  (frame_columns d))"
    and nokeys': "length ds = length (frame_columns d) \<longrightarrow>
            LazyFrame_sort F [] (Flags ds) =
              Inr (LazyFrame
                     (take_rows d (argsort d (zip (frame_columns d) (map (\<lambda>d. \<not> d) ds)))) v
                     (frame_columns d))"
    using keyed [OF e, of b ds] by blast+
  have ties: "\<forall>p q. p < q \<and> q < nrows d \<and>
                tied d (map fst sk) (argsort d sk ! p) (argsort d sk ! q) \<longrightarrow>
                argsort d sk ! p < argsort d sk ! q"
    using argsort_ties_keep_order [of _ _ d sk] by blast
  have rows: "\<forall>p<nrows d. row (take_rows d (argsort d sk)) p = row d (argsort d sk ! p)"
    using argsort_perm [of d sk] by (simp add: row_take_rows)
  show ?thesis
    using nokeys nokeys' keyed [of ks keys b ds] argsort_perm [of d sk] argsort_sorted [of d sk]
      argsort_stable [of d sk i] ties rows
    by blast
qed

theorem C8_sort_witness:
  "LazyFrame_sort
     (LazyFrame [(''k'', [S ''x'', S ''y'', S ''x'']), (''v'', [I 2, I 3, I 1])] ''v1''
        [''k'', ''v'']) [] (Flag False) =
     Inr (LazyFrame [(''k'', [S ''x'', S ''x'', S ''y'']), (''v'', [I 1, I 2, I 3])] ''v1''
            [''k'', ''v'']) \<and>
   LazyFrame_sort
     (LazyFrame [(''k'', [S ''x'', S ''y'', S ''x'']), (''v'', [I 2, I 3, I 1])] ''v1''
        [''k'', ''v'']) [] (Flag True) =
     Inr (LazyFrame [(''k'', [S ''y'', S ''x'', S ''x'']), (''v'', [I 3, I 2, I 1])] ''v1''
            [''k'', ''v'']) \<and>
   LazyFrame_sort
     (LazyFrame [(''k'', [S ''x'', S ''y'', S ''x'']), (''v'', [I 2, I 3, I 1])] ''v1''
        [''k'', ''v'']) [] (Flags [False, True]) =
     Inr (LazyFrame [(''k'', [S ''x'', S ''x'', S ''y'']), (''v'', [I 2, I 1, I 3])] ''v1''
            [''k'', ''v'']) \<and>
   LazyFrame_sort
     (LazyFrame [(''k'', [S ''x'', S ''y'', S ''x'']), (''v'', [I 2, I 3, I 1])] ''v1''
        [''k'', ''v'']) [Str ''k''] (Flag False) =
     Inr (LazyFrame [(''k'', [S ''x'', S ''x'', S ''y'']), (''v'', [I 2, I 1, I 3])] ''v1''
            [''k'', ''v'']) \<and>
   LazyFrame_sort
     (LazyFrame [(''k'', [S ''x'', S ''y'', S ''x'']), (''v'', [I 2, I 3, I 1])] ''v1''
        [''k'', ''v'']) [Str ''k''] (Flags [True]) =
     Inr (LazyFrame [(''k'', [S ''y'', S ''x'', S ''x'']), (''v'', [I 3, I 2, I 1])] ''v1''
            [''k'', ''v''])"
proof -
  let ?d = "[(''k'', [S ''x'', S ''y'', S ''x'']), (''v'', [I 2, I 3, I 1])]"
  let ?F = "LazyFrame ?d ''v1'' [''k'', ''v'']"
  note t1 = C8_sort_default_keys_and_stability [OF sort_example_init,
      where ks = "[''k'']" and keys = "[Str ''k'']" and b = False and ds = "[True]"
        and sk = "[(''k'', True)]" and i = 0]
  note t2 = C8_sort_default_keys_and_stability [OF sort_example_init,
      where ks = "[''k'', ''v'']" and keys = "[]" and b = True and ds = "[False, True]"
        and sk = "[(''k'', True)]" and i = 0]
  have pre1: "[''k''] = (if flatten_str [Str ''k''] = [] then frame_columns ?d
                         else flatten_str [Str ''k''])"
    and sub1: "set [''k''] \<subseteq> set (frame_columns ?d)"
    and len1: "length [True] = length [''k'']"
    and len2: "length [False, True] = length (frame_columns ?d)"
    by (simp_all add: flatten_str_def frame_columns_def)
  from t1 pre1 sub1 len1 have
    a: "LazyFrame_sort ?F [] (Flag False) =
      Inr (LazyFrame
        (take_rows ?d (argsort ?d (map (\<lambda>k. (k, \<not> False)) (frame_columns ?d))))
        ''v1'' (frame_columns ?d))"
    and b: "LazyFrame_sort ?F [Str ''k''] (Flag False) =
      Inr (LazyFrame (take_rows ?d (argsort ?d (map (\<lambda>k. (k, \<not> False)) [''k''])))
        ''v1'' (frame_columns ?d))"
    and c: "LazyFrame_sort ?F [Str ''k''] (Flags [True]) =
      Inr (LazyFrame (take_rows ?d (argsort ?d (zip [''k''] (map (\<lambda>d. \<not> d) [True]))))
        ''v1'' (frame_columns ?d))"
    by blast+
  from t2 len2 have
    d: "LazyFrame_sort ?F [] (Flag True) =
      Inr (LazyFrame
        (take_rows ?d (argsort ?d (map (\<lambda>k. (k, \<not> True)) (frame_columns ?d))))
        ''v1'' (frame_columns ?d))"
    and e: "LazyFrame_sort ?F [] (Flags [False, True]) =
      Inr (LazyFrame
        (take_rows ?d (argsort ?d (zip (frame_columns ?d) (map (\<lambda>d. \<not> d) [False, True]))))
        ''v1'' (frame_columns ?d))"
    by blast+
  show ?thesis
    unfolding a b c d e by (simp add: sort_example_argsort frame_columns_def take_rows_def)
qed

end
